theory Spec2Isabelle
  imports Complex_Main "HOL-Library.Log_Nat" "HOL-Library.Multiset"
begin

section \<open>Python values used by \<open>dl_assignment_7_common.py\<close>\<close>

subsection \<open>Exceptions\<close>

text \<open>
  The exceptions the module can raise by itself: \<open>ValueError\<close> and
  \<open>NotImplementedError\<close> are raised explicitly, \<open>TypeError\<close> by a call whose keyword
  arguments the callee does not accept, \<open>ZeroDivisionError\<close> by \<open>/\<close> and \<open>%\<close>,
  \<open>OverflowError\<close> by \<open>math.floor\<close> and \<open>math.ceil\<close> of an infinity,
  \<open>IndexError\<close> by an index outside a list, and \<open>UnboundLocalError\<close> by reading a
  local variable no assignment has reached.
\<close>

datatype error =
    ValueError string
  | TypeError string
  | NotImplementedError
  | ZeroDivisionError
  | OverflowError
  | IndexError
  | UnboundLocalError string

subsection \<open>Floats: IEEE 754 binary64, round to nearest, ties to even\<close>

text \<open>
  A Python \<open>float\<close> is a binary64 number. A finite one is a rational \<open>m * 2 ^ e\<close>
  with \<open>\<bar>m\<bar> < 2 ^ 53\<close> and \<open>- 1074 \<le> e\<close>, so finite floats are modelled as the
  rationals of that form and every arithmetic operation as the exact operation followed
  by rounding. Signed zeros, infinities and NaN are not values of the model; the one
  place where the module turns an infinity into an exception (\<open>math.floor\<close>,
  \<open>math.ceil\<close>) tests the magnitude of the rounded result against \<open>2 ^ 1024\<close>.
\<close>

type_synonym double = rat

definition round_half_even :: "rat \<Rightarrow> int" where
  "round_half_even y =
     (let f = \<lfloor>y\<rfloor>; r = y - of_int f
      in if r < 1 / 2 then f else if 1 / 2 < r then f + 1 else if even f then f else f + 1)"

text \<open>
  The smallest positive float is \<open>2 ^ - 1074\<close>, and every float is a multiple of it.
  The spacing of the floats around \<open>x\<close> is \<open>2 ^ ulp_exp x / 2 ^ 1074\<close>: with
  \<open>2 ^ e \<le> \<bar>x\<bar> < 2 ^ (e + 1)\<close> it is \<open>2 ^ (e - 52)\<close> for a normal number
  (\<open>- 1022 \<le> e\<close>) and \<open>2 ^ - 1074\<close> below. \<open>floorlog 2 n\<close> is the number of binary
  digits of \<open>n\<close>.
\<close>

definition denorm_exp :: nat where
  "denorm_exp = 1074"

definition ulp_exp :: "rat \<Rightarrow> nat" where
  "ulp_exp x = floorlog 2 (nat \<lfloor>\<bar>x\<bar> * 2 ^ denorm_exp\<rfloor>) - 53"

definition ulp :: "rat \<Rightarrow> rat" where
  "ulp x = 2 ^ ulp_exp x / 2 ^ denorm_exp"

definition fl :: "rat \<Rightarrow> double" where
  "fl x = sgn x * of_int (round_half_even (\<bar>x\<bar> / ulp x)) * ulp x"

definition huge :: rat where
  "huge = 2 ^ 1024"

definition is_double :: "rat \<Rightarrow> bool" where
  "is_double x \<longleftrightarrow> fl x = x \<and> \<bar>x\<bar> < huge"

definition float_of_int :: "int \<Rightarrow> double" where
  "float_of_int n = fl (of_int n)"

definition fadd :: "double \<Rightarrow> double \<Rightarrow> double" where
  "fadd x y = fl (x + y)"

definition fmul :: "double \<Rightarrow> double \<Rightarrow> double" where
  "fmul x y = fl (x * y)"

definition fdiv :: "double \<Rightarrow> double \<Rightarrow> error + double" where
  "fdiv x y = (if y = 0 then Inl ZeroDivisionError else Inr (fl (x / y)))"

definition math_floor :: "double \<Rightarrow> error + int" where
  "math_floor x = (if \<bar>x\<bar> < huge then Inr \<lfloor>x\<rfloor> else Inl OverflowError)"

definition math_ceil :: "double \<Rightarrow> error + int" where
  "math_ceil x = (if \<bar>x\<bar> < huge then Inr \<lceil>x\<rceil> else Inl OverflowError)"

text \<open>The literals \<open>0.9\<close> and \<open>0.1\<close> denote the floats nearest to 9/10 and 1/10.\<close>

definition lit_0_9 :: double where
  "lit_0_9 = fl (9 / 10)"

definition lit_0_1 :: double where
  "lit_0_1 = fl (1 / 10)"

section \<open>Datasets\<close>

text \<open>
  \<open>MNIST(train=flag)\<close> and \<open>FashionMNIST(train=flag)\<close> are collaborators; the module
  uses only their lengths, given here by \<open>len_of\<close>. \<open>random_split\<close> and \<open>DataLoader\<close>
  are collaborators too: a split is recorded with the lengths it was asked for, a loader
  as the description it was built from.
\<close>

datatype dataset = MNIST bool | FashionMNIST bool

datatype effect = Load dataset | RandomSplit dataset "int list"

record data_loader =
  source :: dataset
  sample_count :: int
  loader_batch_size :: int
  shuffle :: bool

record loaders =
  train_loader :: data_loader
  val_loader :: data_loader
  test_loader :: data_loader

record train_val_counts =
  train_data_count :: int
  validation_data_count :: int
  unused_data_count :: int

record test_counts =
  test_count :: int
  unused_test_count :: int

text \<open>Lines 37 to 39: the sizes of the train and validation parts, and of what is left.\<close>

definition split_train_val :: "nat \<Rightarrow> double \<Rightarrow> error + train_val_counts" where
  "split_train_val n used_data =
     (case math_floor (fmul (fmul lit_0_9 (float_of_int (int n))) used_data) of
        Inl e \<Rightarrow> Inl e
      | Inr tr \<Rightarrow>
     (case math_ceil (fmul (fmul lit_0_1 (float_of_int (int n))) used_data) of
        Inl e \<Rightarrow> Inl e
      | Inr va \<Rightarrow>
          Inr \<lparr>train_data_count = tr, validation_data_count = va,
               unused_data_count = int n - tr - va\<rparr>))"

text \<open>Lines 45 and 46: the size of the test part, and of what is left.\<close>

definition split_test :: "nat \<Rightarrow> double \<Rightarrow> error + test_counts" where
  "split_test n_test used_data =
     (case math_ceil (fmul (float_of_int (int n_test)) used_data) of
        Inl e \<Rightarrow> Inl e
      | Inr te \<Rightarrow> Inr \<lparr>test_count = te, unused_test_count = int n_test - te\<rparr>)"

definition split_and_wrap ::
  "(dataset \<Rightarrow> nat) \<Rightarrow> dataset \<Rightarrow> dataset \<Rightarrow> int \<Rightarrow> double \<Rightarrow> effect list \<times> (error + loaders)" where
  "split_and_wrap len_of train_and_val_data test_data batch_size used_data =
     (case split_train_val (len_of train_and_val_data) used_data of
        Inl e \<Rightarrow> ([Load train_and_val_data, Load test_data], Inl e)
      | Inr c \<Rightarrow>
     (case split_test (len_of test_data) used_data of
        Inl e \<Rightarrow>
          ([Load train_and_val_data, Load test_data,
            RandomSplit train_and_val_data
              [train_data_count c, validation_data_count c, unused_data_count c]], Inl e)
      | Inr t \<Rightarrow>
          ([Load train_and_val_data, Load test_data,
            RandomSplit train_and_val_data
              [train_data_count c, validation_data_count c, unused_data_count c],
            RandomSplit test_data [test_count t, unused_test_count t]],
           Inr \<lparr>train_loader = \<lparr>source = train_and_val_data, sample_count = train_data_count c,
                                 loader_batch_size = batch_size, shuffle = True\<rparr>,
                val_loader = \<lparr>source = train_and_val_data, sample_count = validation_data_count c,
                               loader_batch_size = batch_size, shuffle = False\<rparr>,
                test_loader = \<lparr>source = test_data, sample_count = test_count t,
                                loader_batch_size = batch_size, shuffle = False\<rparr>\<rparr>)))"

definition get_dataset ::
  "(dataset \<Rightarrow> nat) \<Rightarrow> string \<Rightarrow> int \<Rightarrow> double \<Rightarrow> effect list \<times> (error + loaders)" where
  "get_dataset len_of name batch_size used_data =
     (if name = ''mnist'' then
        split_and_wrap len_of (MNIST True) (MNIST False) batch_size used_data
      else if name = ''fashionmnist'' then
        split_and_wrap len_of (FashionMNIST True) (FashionMNIST False) batch_size used_data
      else ([], Inl (ValueError (''Dataset name '' @ name @ '' was not recognized''))))"

section \<open>Network architectures\<close>

text \<open>
  A network is described by its layers. Keyword arguments are a list of name and value
  pairs with distinct names, as a Python call builds them. \<open>create_lenet\<close> has the one
  parameter \<open>num_classes\<close> (default 10) and \<open>create_arch2\<close> has none; a call with a
  keyword the callee does not declare raises \<open>TypeError\<close> before the body runs.
\<close>

datatype layer = LazyLinear int | Linear int int | Sigmoid

datatype network = Sequential "layer list"

type_synonym kwargs = "(string \<times> int) list"

definition unexpected_keyword :: "string \<Rightarrow> string \<Rightarrow> error" where
  "unexpected_keyword f k =
     TypeError (f @ ''() got an unexpected keyword argument '' @ [CHR 0x27] @ k @ [CHR 0x27])"

definition create_lenet :: "kwargs \<Rightarrow> error + network" where
  "create_lenet kw =
     (case filter (\<lambda>(k, v). k \<noteq> ''num_classes'') kw of
        (k, v) # _ \<Rightarrow> Inl (unexpected_keyword ''create_lenet'' k)
      | [] \<Rightarrow>
          (let num_classes = (case map_of kw ''num_classes'' of None \<Rightarrow> 10 | Some v \<Rightarrow> v)
           in Inr (Sequential [LazyLinear 300, Sigmoid, Linear 300 100, Sigmoid,
                               Linear 100 num_classes])))"

definition create_arch2 :: "kwargs \<Rightarrow> error + network" where
  "create_arch2 kw =
     (case kw of
        (k, v) # _ \<Rightarrow> Inl (unexpected_keyword ''create_arch2'' k)
      | [] \<Rightarrow> Inl NotImplementedError)"

definition create_network :: "string \<Rightarrow> kwargs \<Rightarrow> error + network" where
  "create_network arch kw =
     (if arch = ''lenet'' then create_lenet kw
      else if arch = ''arch2'' then create_arch2 kw
      else Inl (ValueError (''Architecture name '' @ arch @ '' was not recognized'')))"

section \<open>Training and testing loops\<close>

subsection \<open>Text written by the module\<close>

text \<open>
  \<open>str_int\<close> is the decimal text an f-string gives an \<open>int\<close>, \<open>format_3f\<close> the text
  of the format \<open>.3f\<close>: the float rounded to three decimals (ties to even, on the exact
  value), with at least one digit before the point.
\<close>

definition digit :: "nat \<Rightarrow> char" where
  "digit d = ''0123456789'' ! (d mod 10)"

fun digits :: "nat \<Rightarrow> string" where
  "digits n = (if n < 10 then [digit n] else digits (n div 10) @ [digit (n mod 10)])"

declare digits.simps [simp del]

definition str_int :: "int \<Rightarrow> string" where
  "str_int i = (if i < 0 then ''-'' @ digits (nat (- i)) else digits (nat i))"

definition format_3f :: "double \<Rightarrow> string" where
  "format_3f x =
     (let m = nat (round_half_even (\<bar>x\<bar> * 1000))
      in (if x < 0 then ''-'' else []) @ digits (m div 1000) @ ''.'' @
         [digit (m div 100), digit (m div 10), digit m])"

definition checkpoint_path :: "string \<Rightarrow> int \<Rightarrow> string" where
  "checkpoint_path model_file_name epoch =
     ''checkpoints/model-'' @ model_file_name @ ''-'' @ str_int epoch @ ''.pth''"

definition final_path :: "string \<Rightarrow> string" where
  "final_path model_file_name = ''checkpoints/model-'' @ model_file_name @ ''-final.pth''"

definition summary_line :: "double \<Rightarrow> double \<Rightarrow> double \<Rightarrow> double \<Rightarrow> double \<Rightarrow> double \<Rightarrow> string" where
  "summary_line train_loss train_acc val_loss val_acc test_loss test_acc =
     ''train loss '' @ format_3f train_loss @ '', train accuracy '' @ format_3f train_acc @
     '', val loss '' @ format_3f val_loss @ '', val accuracy '' @ format_3f val_acc @
     '', test loss '' @ format_3f test_loss @ '', test accuracy '' @ format_3f test_acc"

subsection \<open>The metric accumulator\<close>

text \<open>
  Modelled from the spec: \<open>d2l.Accumulator\<close>, a class of the \<open>d2l\<close> library that is not
  part of the module. The spec describes it as a mutable running total over numeric
  channels, initialised to zero, with an operation that adds one contribution to every
  channel and a read of one channel by index. The channels hold Python floats, so every
  addition rounds; the arguments are paired with the channels as \<open>zip\<close> pairs them, and a
  read outside the channels raises \<open>IndexError\<close>.
\<close>

type_synonym accumulator = "double list"

definition Accumulator :: "nat \<Rightarrow> accumulator" where
  "Accumulator n = replicate n 0"

definition acc_add :: "accumulator \<Rightarrow> double list \<Rightarrow> accumulator" where
  "acc_add data args = map (\<lambda>(a, b). fadd a b) (zip data args)"

definition acc_get :: "accumulator \<Rightarrow> nat \<Rightarrow> error + double" where
  "acc_get data i = (if i < length data then Inr (data ! i) else Inl IndexError)"

text \<open>The read \<open>metric[i] / metric[j]\<close>.\<close>

definition acc_ratio :: "accumulator \<Rightarrow> nat \<Rightarrow> nat \<Rightarrow> error + double" where
  "acc_ratio data i j =
     (case acc_get data i of
        Inl e \<Rightarrow> Inl e
      | Inr a \<Rightarrow> (case acc_get data j of Inl e \<Rightarrow> Inl e | Inr b \<Rightarrow> fdiv a b))"

text \<open>
  A sequence of additions as \<open>train\<close> makes them, one per batch: a loss contribution,
  an accuracy contribution and the size of the batch.
\<close>

definition add_batches :: "accumulator \<Rightarrow> (double \<times> double \<times> nat) list \<Rightarrow> accumulator" where
  "add_batches m cs = foldl (\<lambda>m (l, a, s). acc_add m [l, a, float_of_int (int s)]) m cs"

subsection \<open>Collaborators\<close>

text \<open>
  The network, the optimizer, the loss function, the data loaders and the device belong
  to the tensor library. Their state (parameters, gradients, mode flag, optimizer
  moments, random generator) is a value of a type \<open>'w\<close> that the module only passes on,
  and each call the module makes is a function on it:
  \<^item> \<open>net_to\<close>: \<open>net.to(device)\<close>; \<open>optimizer_init lr\<close>: \<open>optimizer(net.parameters(), lr=lr)\<close>;
  \<^item> \<open>net_train flag\<close>: \<open>net.train(flag)\<close>;
  \<^item> \<open>iterate key\<close>: the batches of one pass over \<open>data_loaders[key]\<close>;
  \<^item> \<open>forward_loss b\<close>: lines 157 to 162, the forward pass and the loss of batch \<open>b\<close>;
  \<^item> \<open>zero_grad\<close>, \<open>backward\<close>, \<open>step\<close>: lines 165 to 167;
  \<^item> \<open>loss_sum_size b\<close>: lines 108 to 115, the two arguments of \<open>metric.add\<close>, that is
    \<open>d2l.reduce_sum(loss)\<close> as a float and \<open>d2l.size(loss)\<close>;
  \<^item> \<open>evaluate_accuracy_gpu key\<close>: \<open>d2l.evaluate_accuracy_gpu(net, data_loaders[key])\<close>;
  \<^item> \<open>shape0 b\<close>: \<open>x.shape[0]\<close>; \<open>state_dict\<close>: \<open>net.state_dict()\<close>.
  Floats returned by collaborators are finite. The timers and the creation of the
  animator are left out.
\<close>

datatype part = Train | Val | Test

record ('w, 'b, 'p) torch =
  net_to :: "'w \<Rightarrow> 'w"
  optimizer_init :: "double \<Rightarrow> 'w \<Rightarrow> 'w"
  net_train :: "bool \<Rightarrow> 'w \<Rightarrow> 'w"
  iterate :: "part \<Rightarrow> 'w \<Rightarrow> 'b list \<times> 'w"
  forward_loss :: "'b \<Rightarrow> 'w \<Rightarrow> 'w"
  zero_grad :: "'w \<Rightarrow> 'w"
  backward :: "'w \<Rightarrow> 'w"
  step :: "'w \<Rightarrow> 'w"
  loss_sum_size :: "'b \<Rightarrow> 'w \<Rightarrow> (double \<times> nat) \<times> 'w"
  evaluate_accuracy_gpu :: "part \<Rightarrow> 'w \<Rightarrow> error + (double \<times> 'w)"
  shape0 :: "'b \<Rightarrow> nat"
  state_dict :: "'w \<Rightarrow> 'p"

subsection \<open>\<open>evaluate_loss\<close> and \<open>evaluate\<close>\<close>

fun evaluate_loss_batches ::
  "('w, 'b, 'p) torch \<Rightarrow> 'b list \<Rightarrow> 'w \<Rightarrow> accumulator \<Rightarrow> 'w \<times> accumulator" where
  "evaluate_loss_batches T [] w metric = (w, metric)"
| "evaluate_loss_batches T (b # bs) w metric =
     (case loss_sum_size T b w of
        ((s, n), w') \<Rightarrow>
          evaluate_loss_batches T bs w' (acc_add metric [s, float_of_int (int n)]))"

definition evaluate_loss :: "('w, 'b, 'p) torch \<Rightarrow> part \<Rightarrow> 'w \<Rightarrow> error + (double \<times> 'w)" where
  "evaluate_loss T key w =
     (case iterate T key w of
        (bs, w1) \<Rightarrow>
          (case evaluate_loss_batches T bs w1 (Accumulator 2) of
             (w2, metric) \<Rightarrow>
               (case acc_ratio metric 0 1 of Inl e \<Rightarrow> Inl e | Inr l \<Rightarrow> Inr (l, w2))))"

definition evaluate ::
  "('w, 'b, 'p) torch \<Rightarrow> part \<Rightarrow> 'w \<Rightarrow> error + ((double \<times> double) \<times> 'w)" where
  "evaluate T key w =
     (case evaluate_loss T key w of
        Inl e \<Rightarrow> Inl e
      | Inr (loss, w1) \<Rightarrow>
          (case evaluate_accuracy_gpu T key w1 of
             Inl e \<Rightarrow> Inl e
           | Inr (accuracy, w2) \<Rightarrow> Inr ((loss, accuracy), w2)))"

subsection \<open>\<open>train\<close>\<close>

text \<open>Lines 164 to 167: the parameter update, made in the train phase only.\<close>

definition update :: "('w, 'b, 'p) torch \<Rightarrow> part \<Rightarrow> 'w \<Rightarrow> 'w" where
  "update T phase w = (if phase = Train then step T (backward T (zero_grad T w)) else w)"

text \<open>Lines 154 to 172: the batches of one phase.\<close>

fun train_batches ::
  "('w, 'b, 'p) torch \<Rightarrow> part \<Rightarrow> 'b list \<Rightarrow> 'w \<Rightarrow> accumulator \<Rightarrow> error + ('w \<times> accumulator)" where
  "train_batches T phase [] w m = Inr (w, m)"
| "train_batches T phase (b # bs) w m =
     (case evaluate T phase (update T phase (forward_loss T b w)) of
        Inl e \<Rightarrow> Inl e
      | Inr ((loss, accuracy), w') \<Rightarrow>
          train_batches T phase bs w'
            (acc_add m [fmul loss (float_of_int (int (shape0 T b))),
                        fmul accuracy (float_of_int (int (shape0 T b))),
                        float_of_int (int (shape0 T b))]))"

text \<open>Lines 151 to 172: one phase that is not skipped.\<close>

definition run_phase ::
  "('w, 'b, 'p) torch \<Rightarrow> part \<Rightarrow> 'w \<Rightarrow> error + ('w \<times> accumulator)" where
  "run_phase T phase w =
     (case iterate T phase (net_train T (phase = Train) w) of
        (bs, w1) \<Rightarrow> train_batches T phase bs w1 (Accumulator 3))"

text \<open>
  Lines 146 to 172: the two phases of one epoch. The test of line 149 is made for the
  phase \<open>val\<close> only, after the train phase, and \<open>%\<close> raises when the divisor is zero.
\<close>

record metrics =
  train_metric :: accumulator
  val_metric :: accumulator

definition run_phases ::
  "('w, 'b, 'p) torch \<Rightarrow> int \<Rightarrow> int \<Rightarrow> 'w \<Rightarrow> error + ('w \<times> metrics)" where
  "run_phases T eval_every_n_epochs epoch w =
     (case run_phase T Train w of
        Inl e \<Rightarrow> Inl e
      | Inr (w1, mt) \<Rightarrow>
          if eval_every_n_epochs = 0 then Inl ZeroDivisionError
          else if epoch mod eval_every_n_epochs \<noteq> 0 then
            Inr (w1, \<lparr>train_metric = mt, val_metric = Accumulator 3\<rparr>)
          else
            (case run_phase T Val w1 of
               Inl e \<Rightarrow> Inl e
             | Inr (w2, mv) \<Rightarrow> Inr (w2, \<lparr>train_metric = mt, val_metric = mv\<rparr>)))"

text \<open>The two reads \<open>metric[0] / metric[2]\<close> and \<open>metric[1] / metric[2]\<close>, in this order.\<close>

definition means :: "accumulator \<Rightarrow> error + (double \<times> double)" where
  "means m =
     (case acc_ratio m 0 2 of
        Inl e \<Rightarrow> Inl e
      | Inr l \<Rightarrow> (case acc_ratio m 1 2 of Inl e \<Rightarrow> Inl e | Inr a \<Rightarrow> Inr (l, a)))"

text \<open>
  What a run leaves behind: the collaborators' state, the files written by
  \<open>torch.save\<close> in order, the points given to the animator, and the lines printed.
\<close>

record ('w, 'p) run =
  world :: 'w
  files :: "(string \<times> 'p) list"
  curve :: "(int \<times> double list) list"
  printed :: "string list"

text \<open>Lines 174 to 188: the end of an epoch.\<close>

definition record_epoch ::
  "('w, 'b, 'p) torch \<Rightarrow> string \<Rightarrow> int \<Rightarrow> int \<Rightarrow> metrics \<Rightarrow> ('w, 'p) run \<Rightarrow>
   ('w, 'p) run \<times> error option" where
  "record_epoch T model_file_name eval_every_n_epochs epoch ms r =
     (if epoch mod eval_every_n_epochs = 0 then
        (let r1 = r\<lparr>files := files r @
                       [(checkpoint_path model_file_name epoch, state_dict T (world r))]\<rparr>
         in case means (train_metric ms) of
              Inl e \<Rightarrow> (r1, Some e)
            | Inr (t_loss, t_acc) \<Rightarrow>
                (case means (val_metric ms) of
                   Inl e \<Rightarrow> (r1, Some e)
                 | Inr (v_loss, v_acc) \<Rightarrow>
                     (r1\<lparr>curve := curve r1 @ [(epoch + 1, [t_loss, t_acc, v_loss, v_acc])]\<rparr>, None)))
      else
        (case means (train_metric ms) of
           Inl e \<Rightarrow> (r, Some e)
         | Inr (t_loss, t_acc) \<Rightarrow> (r\<lparr>curve := curve r @ [(epoch + 1, [t_loss, t_acc])]\<rparr>, None)))"

text \<open>Lines 145 to 188: one epoch.\<close>

definition train_epoch ::
  "('w, 'b, 'p) torch \<Rightarrow> string \<Rightarrow> int \<Rightarrow> int \<Rightarrow> ('w, 'p) run \<Rightarrow>
   ('w, 'p) run \<times> (error + metrics)" where
  "train_epoch T model_file_name eval_every_n_epochs epoch r =
     (case run_phases T eval_every_n_epochs epoch (world r) of
        Inl e \<Rightarrow> (r, Inl e)
      | Inr (w, ms) \<Rightarrow>
          (case record_epoch T model_file_name eval_every_n_epochs epoch ms (r\<lparr>world := w\<rparr>) of
             (r', Some e) \<Rightarrow> (r', Inl e)
           | (r', None) \<Rightarrow> (r', Inr ms)))"

text \<open>
  Line 144: the loop over the epochs. The variable \<open>metrics\<close> is bound by the first
  epoch and keeps the value of the last one.
\<close>

fun train_epochs ::
  "('w, 'b, 'p) torch \<Rightarrow> string \<Rightarrow> int \<Rightarrow> int list \<Rightarrow> ('w, 'p) run \<Rightarrow> metrics option \<Rightarrow>
   ('w, 'p) run \<times> (error + metrics option)" where
  "train_epochs T model_file_name eval_every_n_epochs [] r ms = (r, Inr ms)"
| "train_epochs T model_file_name eval_every_n_epochs (epoch # es) r ms =
     (case train_epoch T model_file_name eval_every_n_epochs epoch r of
        (r', Inl e) \<Rightarrow> (r', Inl e)
      | (r', Inr ms') \<Rightarrow> train_epochs T model_file_name eval_every_n_epochs es r' (Some ms'))"

text \<open>Lines 190 to 201: the last evaluations, the final checkpoint and the summary.\<close>

definition train_final ::
  "('w, 'b, 'p) torch \<Rightarrow> string \<Rightarrow> metrics option \<Rightarrow> ('w, 'p) run \<Rightarrow>
   ('w, 'p) run \<times> error option" where
  "train_final T model_file_name ms r =
     (case evaluate T Test (world r) of
        Inl e \<Rightarrow> (r, Some e)
      | Inr ((test_loss, test_acc), w1) \<Rightarrow>
     (case evaluate T Val w1 of
        Inl e \<Rightarrow> (r\<lparr>world := w1\<rparr>, Some e)
      | Inr ((val_loss, val_acc), w2) \<Rightarrow>
     (case ms of
        None \<Rightarrow> (r\<lparr>world := w2\<rparr>, Some (UnboundLocalError ''metrics''))
      | Some m \<Rightarrow>
     (case means (train_metric m) of
        Inl e \<Rightarrow> (r\<lparr>world := w2\<rparr>, Some e)
      | Inr (train_loss, train_acc) \<Rightarrow>
          (r\<lparr>world := w2,
             files := files r @ [(final_path model_file_name, state_dict T w2)],
             printed := printed r @
               [summary_line train_loss train_acc val_loss val_acc test_loss test_acc]\<rparr>,
           None)))))"

definition train ::
  "('w, 'b, 'p) torch \<Rightarrow> string \<Rightarrow> double \<Rightarrow> int \<Rightarrow> int \<Rightarrow> 'w \<Rightarrow> ('w, 'p) run \<times> error option" where
  "train T model_file_name learning_rate epochs eval_every_n_epochs w =
     (case train_epochs T model_file_name eval_every_n_epochs [0..epochs - 1]
             \<lparr>world = optimizer_init T learning_rate (net_to T w),
              files = [], curve = [], printed = []\<rparr> None of
        (r, Inl e) \<Rightarrow> (r, Some e)
      | (r, Inr ms) \<Rightarrow> train_final T model_file_name ms r)"

subsection \<open>A small instance of the collaborators\<close>

text \<open>
  An instance on which the functions above can be run: the state is the number of
  optimizer steps taken so far, which is what \<open>state_dict\<close> returns, and the number of
  forward passes made so far; a batch is its number of samples; the train loader yields batches of 2 and 1 samples, the
  validation loader one batch of 1, the test loader one batch of 3; every sample has
  loss 2 and every prediction is right.
\<close>

definition sample_torch :: "(nat \<times> nat, nat, nat) torch" where
  "sample_torch =
     \<lparr>net_to = (\<lambda>w. w), optimizer_init = (\<lambda>lr w. w), net_train = (\<lambda>flag w. w),
      iterate = (\<lambda>key w. (case key of Train \<Rightarrow> [2, 1] | Val \<Rightarrow> [1] | Test \<Rightarrow> [3], w)),
      forward_loss = (\<lambda>b (steps, passes). (steps, Suc passes)),
      zero_grad = (\<lambda>w. w), backward = (\<lambda>w. w),
      step = (\<lambda>(steps, passes). (Suc steps, passes)),
      loss_sum_size = (\<lambda>b (steps, passes). ((of_nat (2 * b), b), (steps, Suc passes))),
      evaluate_accuracy_gpu = (\<lambda>key w. Inr (1, w)),
      shape0 = (\<lambda>b. b), state_dict = fst\<rparr>"

text \<open>
  Two variants: one whose optimizer step does nothing, and one whose loaders yield no
  batch.
\<close>

definition frozen_torch :: "(nat \<times> nat, nat, nat) torch" where
  "frozen_torch = sample_torch\<lparr>step := \<lambda>w. w\<rparr>"

definition empty_torch :: "(nat \<times> nat, nat, nat) torch" where
  "empty_torch = sample_torch\<lparr>iterate := \<lambda>key w. ([], w)\<rparr>"

text \<open>
  A third variant, for a network that begins with a lazily initialised layer, as the one
  of \<open>create_lenet\<close> does (\<open>nn.LazyLinear\<close>): the parameters of such a layer do not
  exist before its first forward pass, which creates them. The state and the calls are
  those of the first instance; \<open>state_dict\<close> returns nothing as long as no forward pass
  has been made, and the number of optimizer steps afterwards.
\<close>

definition lazy_torch :: "(nat \<times> nat, nat, nat option) torch" where
  "lazy_torch =
     \<lparr>net_to = (\<lambda>w. w), optimizer_init = (\<lambda>lr w. w), net_train = (\<lambda>flag w. w),
      iterate = (\<lambda>key w. (case key of Train \<Rightarrow> [2, 1] | Val \<Rightarrow> [1] | Test \<Rightarrow> [3], w)),
      forward_loss = (\<lambda>b (steps, passes). (steps, Suc passes)),
      zero_grad = (\<lambda>w. w), backward = (\<lambda>w. w),
      step = (\<lambda>(steps, passes). (Suc steps, passes)),
      loss_sum_size = (\<lambda>b (steps, passes). ((of_nat (2 * b), b), (steps, Suc passes))),
      evaluate_accuracy_gpu = (\<lambda>key w. Inr (1, w)),
      shape0 = (\<lambda>b. b),
      state_dict = (\<lambda>(steps, passes). if passes = 0 then None else Some steps)\<rparr>"

subsection \<open>What is assumed of the collaborators\<close>

text \<open>
  \<open>frames_parameters T ready\<close> says that on the states that are \<open>ready\<close> no call other
  than \<open>optimizer.step()\<close> changes what \<open>net.state_dict()\<close> returns, and that every call
  leads from a ready state to a ready state: moving the network, building the optimizer,
  switching the mode, iterating a loader, the forward pass and the loss, clearing the
  gradients, back-propagation and the evaluation of the accuracy all leave the parameters
  of a ready network as they are. A network without lazily initialised layers is always
  ready; one with such layers is ready once it has made a forward pass.
  \<open>keeps T ready p r\<close> says that the state is ready, the parameters are \<open>p\<close> and every
  file written holds \<open>p\<close>.
\<close>

definition frames_parameters :: "('w, 'b, 'p) torch \<Rightarrow> ('w \<Rightarrow> bool) \<Rightarrow> bool" where
  "frames_parameters T ready \<longleftrightarrow>
     (\<forall>w. ready w \<longrightarrow>
        ready (net_to T w) \<and> state_dict T (net_to T w) = state_dict T w) \<and>
     (\<forall>lr w. ready w \<longrightarrow>
        ready (optimizer_init T lr w) \<and> state_dict T (optimizer_init T lr w) = state_dict T w) \<and>
     (\<forall>flag w. ready w \<longrightarrow>
        ready (net_train T flag w) \<and> state_dict T (net_train T flag w) = state_dict T w) \<and>
     (\<forall>key w. ready w \<longrightarrow>
        ready (snd (iterate T key w)) \<and> state_dict T (snd (iterate T key w)) = state_dict T w) \<and>
     (\<forall>b w. ready w \<longrightarrow>
        ready (forward_loss T b w) \<and> state_dict T (forward_loss T b w) = state_dict T w) \<and>
     (\<forall>w. ready w \<longrightarrow>
        ready (zero_grad T w) \<and> state_dict T (zero_grad T w) = state_dict T w) \<and>
     (\<forall>w. ready w \<longrightarrow>
        ready (backward T w) \<and> state_dict T (backward T w) = state_dict T w) \<and>
     (\<forall>w. ready w \<longrightarrow> ready (step T w)) \<and>
     (\<forall>b w. ready w \<longrightarrow>
        ready (snd (loss_sum_size T b w)) \<and>
        state_dict T (snd (loss_sum_size T b w)) = state_dict T w) \<and>
     (\<forall>key w a w'. ready w \<longrightarrow> evaluate_accuracy_gpu T key w = Inr (a, w') \<longrightarrow>
        ready w' \<and> state_dict T w' = state_dict T w)"

definition keeps :: "('w, 'b, 'p) torch \<Rightarrow> ('w \<Rightarrow> bool) \<Rightarrow> 'p \<Rightarrow> ('w, 'p) run \<Rightarrow> bool" where
  "keeps T ready p r \<longleftrightarrow>
     ready (world r) \<and> state_dict T (world r) = p \<and> (\<forall>f \<in> set (files r). snd f = p)"

section \<open>Properties of the rounding\<close>

subsection \<open>Rounding to an integer\<close>

lemma rhe_of_int: "round_half_even (of_int k) = k"
  by (simp add: round_half_even_def)

lemma rhe_lower: "\<lfloor>y\<rfloor> \<le> round_half_even y"
  by (simp add: round_half_even_def Let_def)

lemma rhe_upper: "round_half_even y \<le> \<lfloor>y\<rfloor> + 1"
  by (simp add: round_half_even_def Let_def)

lemma rhe_mono: assumes "x \<le> y" shows "round_half_even x \<le> round_half_even y"
proof (cases "\<lfloor>x\<rfloor> = \<lfloor>y\<rfloor>")
  case True
  with assms show ?thesis by (auto simp: round_half_even_def Let_def)
next
  case False
  with assms have "\<lfloor>x\<rfloor> < \<lfloor>y\<rfloor>" using floor_mono[of x y] by linarith
  then have "round_half_even x \<le> \<lfloor>y\<rfloor>" using rhe_upper[of x] by linarith
  then show ?thesis using rhe_lower[of y] by linarith
qed

lemma rhe_nonneg: assumes "0 \<le> y" shows "0 \<le> round_half_even y"
proof -
  have "0 \<le> \<lfloor>y\<rfloor>" using assms by simp
  then show ?thesis using rhe_lower[of y] by linarith
qed

subsection \<open>The spacing of the floats\<close>

lemma ulp_exp_normal:
  assumes "2 ^ (k + 52) \<le> \<bar>x\<bar> * 2 ^ denorm_exp" "\<bar>x\<bar> * 2 ^ denorm_exp < 2 ^ (k + 53)"
  shows "ulp_exp x = k"
proof -
  define n where "n = nat \<lfloor>\<bar>x\<bar> * 2 ^ denorm_exp\<rfloor>"
  have "(2::int) ^ (k + 52) \<le> \<lfloor>\<bar>x\<bar> * 2 ^ denorm_exp\<rfloor>"
    using assms(1) by (simp add: le_floor_iff)
  then have lo: "2 ^ (k + 52) \<le> n" unfolding n_def by (simp add: le_nat_iff)
  have "\<lfloor>\<bar>x\<bar> * 2 ^ denorm_exp\<rfloor> < (2::int) ^ (k + 53)"
    using assms(2) by (simp add: floor_less_iff)
  then have hi: "n < 2 ^ (k + 53)" unfolding n_def by (simp add: nat_less_iff)
  have "Suc (k + 52) \<le> floorlog 2 n" using lo by (intro floorlog_ge_SucI) auto
  moreover have "floorlog 2 n \<le> k + 53" using hi by (intro floorlog_leI) auto
  ultimately show ?thesis unfolding ulp_exp_def n_def[symmetric] by simp
qed

lemma scaled_less: "\<bar>x\<bar> * 2 ^ denorm_exp < 2 ^ (ulp_exp x + 53)"
proof -
  define n where "n = nat \<lfloor>\<bar>x\<bar> * 2 ^ denorm_exp\<rfloor>"
  have "floorlog 2 n \<le> ulp_exp x + 53" unfolding ulp_exp_def n_def by simp
  then have "n < 2 ^ (ulp_exp x + 53)" by (rule floorlog_leD) simp
  then have "int n < 2 ^ (ulp_exp x + 53)" by (metis of_nat_less_iff of_nat_numeral of_nat_power)
  then have "\<lfloor>\<bar>x\<bar> * 2 ^ denorm_exp\<rfloor> < 2 ^ (ulp_exp x + 53)" unfolding n_def by simp
  then show ?thesis by (simp add: floor_less_iff)
qed

lemma scaled_ge: assumes "0 < ulp_exp x" shows "2 ^ (ulp_exp x + 52) \<le> \<bar>x\<bar> * 2 ^ denorm_exp"
proof -
  define n where "n = nat \<lfloor>\<bar>x\<bar> * 2 ^ denorm_exp\<rfloor>"
  have "ulp_exp x + 53 \<le> floorlog 2 n" using assms unfolding ulp_exp_def n_def by simp
  then have "2 ^ (ulp_exp x + 53 - 1) \<le> n" by (rule floorlog_geD) simp
  moreover have "ulp_exp x + 53 - 1 = ulp_exp x + 52" by simp
  ultimately have "2 ^ (ulp_exp x + 52) \<le> n" by (simp only:)
  then have "(2::int) ^ (ulp_exp x + 52) \<le> int n" by (metis of_nat_le_iff of_nat_numeral of_nat_power)
  moreover have "int n = \<lfloor>\<bar>x\<bar> * 2 ^ denorm_exp\<rfloor>" unfolding n_def by simp
  ultimately have "(2::int) ^ (ulp_exp x + 52) \<le> \<lfloor>\<bar>x\<bar> * 2 ^ denorm_exp\<rfloor>" by simp
  then show ?thesis by (simp add: le_floor_iff)
qed

lemma ulp_exp_mono: assumes "\<bar>x\<bar> \<le> \<bar>y\<bar>" shows "ulp_exp x \<le> ulp_exp y"
proof -
  have "nat \<lfloor>\<bar>x\<bar> * 2 ^ denorm_exp\<rfloor> \<le> nat \<lfloor>\<bar>y\<bar> * 2 ^ denorm_exp\<rfloor>"
    using assms by (intro nat_mono floor_mono) simp
  then show ?thesis unfolding ulp_exp_def by (intro diff_le_mono floorlog_mono)
qed

subsection \<open>Rounding is monotone\<close>

lemma ulp_pos: "0 < ulp x" by (simp add: ulp_def)

lemma ulp_minus: "ulp (- x) = ulp x" by (simp add: ulp_def ulp_exp_def)

lemma fl_zero: "fl 0 = 0" by (simp add: fl_def)

lemma fl_minus: "fl (- x) = - fl x" by (simp add: fl_def ulp_minus)

lemma fl_nonneg_eq: "0 \<le> x \<Longrightarrow> fl x = of_int (round_half_even (x / ulp x)) * ulp x"
  by (cases "x = 0") (simp_all add: fl_def round_half_even_def)

lemma fl_nonneg: assumes "0 \<le> x" shows "0 \<le> fl x"
proof -
  have "0 \<le> x / ulp x" using assms ulp_pos[of x] by simp
  then have "0 \<le> round_half_even (x / ulp x)" by (rule rhe_nonneg)
  then show ?thesis using ulp_pos[of x] by (simp add: fl_nonneg_eq[OF assms])
qed

text \<open>The rounded significand of a non-negative number is at most \<open>2 ^ 53\<close>.\<close>

lemma significand_le: assumes "0 \<le> x" shows "round_half_even (x / ulp x) \<le> 2 ^ 53"
proof -
  have "x * 2 ^ denorm_exp < 2 ^ (ulp_exp x + 53)" using scaled_less[of x] assms by simp
  then have "x * 2 ^ denorm_exp / 2 ^ ulp_exp x < 2 ^ (ulp_exp x + 53) / 2 ^ ulp_exp x"
    by (intro divide_strict_right_mono) auto
  moreover have "(2::rat) ^ (ulp_exp x + 53) / 2 ^ ulp_exp x = of_int (2 ^ 53)"
    by (simp add: power_add)
  moreover have "x / ulp x = x * 2 ^ denorm_exp / 2 ^ ulp_exp x" by (simp add: ulp_def)
  ultimately have "x / ulp x \<le> of_int (2 ^ 53)" by simp
  then have "round_half_even (x / ulp x) \<le> round_half_even (of_int (2 ^ 53))" by (rule rhe_mono)
  then show ?thesis by (simp only: rhe_of_int)
qed

lemma significand_ge: assumes "0 \<le> y" "0 < ulp_exp y" shows "2 ^ 52 \<le> round_half_even (y / ulp y)"
proof -
  have "2 ^ (ulp_exp y + 52) \<le> y * 2 ^ denorm_exp" using scaled_ge[of y] assms by simp
  then have "2 ^ (ulp_exp y + 52) / 2 ^ ulp_exp y \<le> y * 2 ^ denorm_exp / 2 ^ ulp_exp y"
    by (intro divide_right_mono) auto
  moreover have "(2::rat) ^ (ulp_exp y + 52) / 2 ^ ulp_exp y = of_int (2 ^ 52)"
    by (simp add: power_add)
  moreover have "y / ulp y = y * 2 ^ denorm_exp / 2 ^ ulp_exp y" by (simp add: ulp_def)
  ultimately have "of_int (2 ^ 52) \<le> y / ulp y" by simp
  then have "round_half_even (of_int (2 ^ 52)) \<le> round_half_even (y / ulp y)" by (rule rhe_mono)
  then show ?thesis by (simp only: rhe_of_int)
qed

lemma fl_mono_nonneg: assumes "0 \<le> x" "x \<le> y" shows "fl x \<le> fl y"
proof -
  have y0: "0 \<le> y" using assms by simp
  have kle: "ulp_exp x \<le> ulp_exp y" using assms by (intro ulp_exp_mono) simp
  show ?thesis
  proof (cases "ulp_exp x = ulp_exp y")
    case True
    then have u: "ulp x = ulp y" by (simp add: ulp_def)
    have "x / ulp y \<le> y / ulp y" using assms ulp_pos[of y] by (simp add: divide_right_mono)
    then have "round_half_even (x / ulp y) \<le> round_half_even (y / ulp y)" by (rule rhe_mono)
    then have "(of_int (round_half_even (x / ulp y)) :: rat) \<le> of_int (round_half_even (y / ulp y))" by simp
    then show ?thesis using ulp_pos[of y]
      by (simp add: fl_nonneg_eq[OF assms(1)] fl_nonneg_eq[OF y0] u mult_right_mono)
  next
    case False
    with kle have lt: "ulp_exp x < ulp_exp y" by simp
    have "(of_int (round_half_even (x / ulp x)) :: rat) \<le> of_int (2 ^ 53)"
      using significand_le[OF assms(1)] by (simp only: of_int_le_iff)
    then have "fl x \<le> of_int (2 ^ 53) * ulp x"
      using ulp_pos[of x] unfolding fl_nonneg_eq[OF assms(1)] by (intro mult_right_mono) auto
    also have "\<dots> = 2 ^ (ulp_exp x + 53) / 2 ^ denorm_exp" by (simp add: ulp_def power_add)
    also have "\<dots> \<le> 2 ^ (ulp_exp y + 52) / 2 ^ denorm_exp" using lt
      by (intro divide_right_mono power_increasing) auto
    also have "\<dots> = of_int (2 ^ 52) * ulp y" by (simp add: ulp_def power_add)
    also have "\<dots> \<le> fl y"
    proof -
      have "(of_int (2 ^ 52) :: rat) \<le> of_int (round_half_even (y / ulp y))"
        using significand_ge[OF y0] lt by (simp only: of_int_le_iff)
      then show ?thesis
        using ulp_pos[of y] unfolding fl_nonneg_eq[OF y0] by (intro mult_right_mono) auto
    qed
    finally show ?thesis .
  qed
qed

lemma fl_mono: assumes "x \<le> y" shows "fl x \<le> fl y"
proof -
  consider "0 \<le> x" | "x < 0" "0 \<le> y" | "y < 0" by linarith
  then show ?thesis
  proof cases
    case 1 then show ?thesis using assms by (rule fl_mono_nonneg)
  next
    case 2
    then have "0 \<le> fl (- x)" "0 \<le> fl y" by (simp_all add: fl_nonneg)
    then show ?thesis by (simp add: fl_minus)
  next
    case 3
    then have "fl (- y) \<le> fl (- x)" using assms by (intro fl_mono_nonneg) auto
    then show ?thesis by (simp add: fl_minus)
  qed
qed

subsection \<open>Floats are rounded to themselves\<close>

lemma fl_exact_nonneg:
  fixes m :: int and j :: nat
  assumes "0 \<le> m" "m < 2 ^ 53"
  shows "fl (of_int m * 2 ^ j / 2 ^ denorm_exp) = of_int m * 2 ^ j / 2 ^ denorm_exp"
proof -
  define x :: rat where "x = of_int m * 2 ^ j / 2 ^ denorm_exp"
  define k where "k = ulp_exp x"
  have x0: "0 \<le> x" using assms by (simp add: x_def)
  have X: "\<bar>x\<bar> * 2 ^ denorm_exp = of_int m * 2 ^ j"
    unfolding abs_of_nonneg[OF x0] by (simp add: x_def)
  have kj: "k \<le> j"
  proof (rule ccontr)
    assume "\<not> k \<le> j"
    then have jk: "j < k" by simp
    then have "0 < ulp_exp x" by (simp add: k_def)
    then have A: "(2::rat) ^ (k + 52) \<le> of_int m * 2 ^ j" using scaled_ge[of x] X by (simp add: k_def)
    have "(of_int m :: rat) < of_int (2 ^ 53)" using assms(2) by (simp only: of_int_less_iff)
    then have "(of_int m :: rat) * 2 ^ j < of_int (2 ^ 53) * 2 ^ j"
      by (intro mult_strict_right_mono) auto
    also have "\<dots> = 2 ^ (j + 53)" by (simp add: power_add)
    finally have B: "(of_int m :: rat) * 2 ^ j < 2 ^ (j + 53)" .
    from A B have "(2::rat) ^ (k + 52) < 2 ^ (j + 53)" by (rule le_less_trans)
    then have "k + 52 < j + 53" by (rule power_less_imp_less_exp[rotated]) simp
    with jk show False by simp
  qed
  have "x / ulp x = of_int m * 2 ^ j / 2 ^ k" by (simp add: ulp_def k_def x_def)
  also have "\<dots> = of_int m * 2 ^ (j - k)" using kj by (simp add: power_diff)
  also have "\<dots> = of_int (m * 2 ^ (j - k))" by simp
  finally have "round_half_even (x / ulp x) = m * 2 ^ (j - k)" by (simp only: rhe_of_int)
  then have "fl x = of_int (m * 2 ^ (j - k)) * (2 ^ k / 2 ^ denorm_exp)"
    by (simp add: fl_nonneg_eq[OF x0] ulp_def k_def)
  also have "\<dots> = of_int m * (2 ^ (j - k) * 2 ^ k) / 2 ^ denorm_exp" by simp
  also have "(2::rat) ^ (j - k) * 2 ^ k = 2 ^ j" using kj by (simp flip: power_add)
  finally show ?thesis by (simp add: x_def)
qed

lemma fl_exact:
  fixes m :: int and j :: nat
  assumes "\<bar>m\<bar> \<le> 2 ^ 53"
  shows "fl (of_int m * 2 ^ j / 2 ^ denorm_exp) = of_int m * 2 ^ j / 2 ^ denorm_exp"
proof -
  have pos: "fl (of_int n * 2 ^ j / 2 ^ denorm_exp) = of_int n * 2 ^ j / 2 ^ denorm_exp"
    if "0 \<le> n" "n \<le> 2 ^ 53" for n :: int
  proof (cases "n = 2 ^ 53")
    case True
    have "(of_int n :: rat) * 2 ^ j / 2 ^ denorm_exp = of_int (2 ^ 52) * 2 ^ (Suc j) / 2 ^ denorm_exp"
      by (simp add: True)
    moreover have "fl (of_int (2 ^ 52) * 2 ^ (Suc j) / 2 ^ denorm_exp) = of_int (2 ^ 52) * 2 ^ (Suc j) / 2 ^ denorm_exp"
      by (rule fl_exact_nonneg) simp_all
    ultimately show ?thesis by (simp only:)
  next
    case False
    with that show ?thesis by (intro fl_exact_nonneg) simp_all
  qed
  show ?thesis
  proof (cases "0 \<le> m")
    case True
    with assms show ?thesis by (intro pos) simp_all
  next
    case False
    with assms have "fl (of_int (- m) * 2 ^ j / 2 ^ denorm_exp) = of_int (- m) * 2 ^ j / 2 ^ denorm_exp"
      by (intro pos) simp_all
    then have "fl (- (of_int m * 2 ^ j / 2 ^ denorm_exp)) = - (of_int m * 2 ^ j / 2 ^ denorm_exp)" by simp
    then show ?thesis by (simp only: fl_minus neg_equal_iff_equal)
  qed
qed

lemma fl_dyadic:
  assumes "\<bar>m\<bar> \<le> 2 ^ 53" "k \<le> 1074"
  shows "fl (of_int m / 2 ^ k) = of_int m / 2 ^ k"
proof -
  have "(2::rat) ^ (denorm_exp - k) * 2 ^ k = 2 ^ denorm_exp"
    using assms(2) by (simp add: denorm_exp_def flip: power_add)
  then have "(of_int m :: rat) * 2 ^ (denorm_exp - k) / 2 ^ denorm_exp = of_int m / 2 ^ k"
    by (simp add: field_simps)
  with fl_exact[OF assms(1), of "denorm_exp - k"] show ?thesis by (simp only:)
qed

lemma fl_of_int:
  assumes "\<bar>n\<bar> \<le> 2 ^ 53"
  shows "fl (of_int n) = of_int n"
  using fl_dyadic[OF assms, of 0] by simp

lemma fl_of_nat:
  assumes "n \<le> 2 ^ 53"
  shows "fl (of_nat n) = of_nat n"
proof -
  have "\<bar>int n\<bar> \<le> 2 ^ 53" using assms by (metis abs_of_nat of_nat_le_iff of_nat_numeral of_nat_power)
  then have "fl (of_int (int n)) = of_int (int n)" by (rule fl_of_int)
  then show ?thesis by simp
qed

lemma fl_idem: "fl (fl x) = fl x"
proof -
  have nn: "fl (fl y) = fl y" if "0 \<le> y" for y
  proof -
    define M where "M = round_half_even (y / ulp y)"
    have M53: "M \<le> 2 ^ 53" unfolding M_def using that by (rule significand_le)
    have "0 \<le> y / ulp y" using that ulp_pos[of y] by simp
    then have M0: "0 \<le> M" unfolding M_def by (rule rhe_nonneg)
    have eq: "fl y = of_int M * 2 ^ ulp_exp y / 2 ^ denorm_exp"
      by (simp add: fl_nonneg_eq[OF that] M_def ulp_def)
    have "fl (of_int M * 2 ^ ulp_exp y / 2 ^ denorm_exp) = of_int M * 2 ^ ulp_exp y / 2 ^ denorm_exp"
      using M0 M53 by (intro fl_exact) simp
    then show ?thesis by (simp only: eq)
  qed
  show ?thesis
  proof (cases "0 \<le> x")
    case True then show ?thesis by (rule nn)
  next
    case False
    then have "fl (fl (- x)) = fl (- x)" by (intro nn) simp
    then show ?thesis by (simp add: fl_minus)
  qed
qed

subsection \<open>Rounding a given number\<close>

text \<open>
  With the binade of \<open>x\<close> given, the rounding of \<open>x\<close> is one rounding to an integer.
\<close>

lemma floor_rat_numeral_div [simp]:
  "\<lfloor>numeral a / numeral b :: rat\<rfloor> = numeral a div numeral b"
  by (metis floor_divide_of_int_eq of_int_numeral)

lemma ceiling_rat_numeral_div [simp]:
  "\<lceil>numeral a / numeral b :: rat\<rceil> = - (- numeral a div numeral b)"
  by (metis ceiling_def divide_minus_left floor_divide_of_int_eq of_int_neg_numeral of_int_numeral)


lemma fl_cert_lt1:
  fixes e :: nat
  assumes "1 \<le> \<bar>x\<bar> * 2 ^ e" "\<bar>x\<bar> * 2 ^ e < 2" "e \<le> 1022"
  shows "fl x = sgn x * of_int (round_half_even (\<bar>x\<bar> * 2 ^ (e + 52))) / 2 ^ (e + 52)"
proof -
  define a :: nat where "a = 1022 - e"
  have d: "denorm_exp = e + a + 52" using assms(3) by (simp add: denorm_exp_def a_def)
  have "(2::rat) ^ (a + 52) = 1 * 2 ^ (a + 52)" by simp
  also have "\<dots> \<le> (\<bar>x\<bar> * 2 ^ e) * 2 ^ (a + 52)" using assms(1) by (intro mult_right_mono) auto
  also have "\<dots> = \<bar>x\<bar> * 2 ^ denorm_exp" by (simp add: d power_add)
  finally have lo: "2 ^ (a + 52) \<le> \<bar>x\<bar> * 2 ^ denorm_exp" .
  have "\<bar>x\<bar> * 2 ^ denorm_exp = (\<bar>x\<bar> * 2 ^ e) * 2 ^ (a + 52)" by (simp add: d power_add)
  also have "\<dots> < 2 * 2 ^ (a + 52)" using assms(2) by (intro mult_strict_right_mono) auto
  also have "\<dots> = 2 ^ (a + 53)" by (simp add: power_add)
  finally have hi: "\<bar>x\<bar> * 2 ^ denorm_exp < 2 ^ (a + 53)" .
  have k: "ulp_exp x = a" using lo hi by (rule ulp_exp_normal)
  have u: "ulp x = 1 / 2 ^ (e + 52)" by (simp add: ulp_def k d power_add)
  show ?thesis by (simp add: fl_def u)
qed



section \<open>Datasets: verified properties\<close>

subsection \<open>Bounds on the rounded products\<close>

lemma fl_one: "fl 1 = 1"
  using fl_of_int[of 1] by simp














subsection \<open>The sizes of the parts\<close>



text \<open>
  Claim C6. For every dataset name other than \<open>mnist\<close> and \<open>fashionmnist\<close>,
  \<open>get_dataset\<close> raises \<open>ValueError\<close>; no dataset has been loaded and no split made
  by then (the list of effects is empty), and no loaders are returned.
\<close>

theorem get_dataset_unrecognized:
  assumes "name \<noteq> ''mnist''" "name \<noteq> ''fashionmnist''"
  shows "get_dataset len_of name batch_size used_data =
           ([], Inl (ValueError (''Dataset name '' @ name @ '' was not recognized'')))"
  using assms by (simp add: get_dataset_def)

theorem get_dataset_unrecognized_witness:
  "''not_a_dataset'' \<noteq> ''mnist'' \<and> ''not_a_dataset'' \<noteq> ''fashionmnist'' \<and>
   get_dataset (\<lambda>d. 10) ''not_a_dataset'' 60 1 =
     ([], Inl (ValueError ''Dataset name not_a_dataset was not recognized''))"
  using get_dataset_unrecognized [of "''not_a_dataset''" "\<lambda>d. 10" 60 1] by simp

section \<open>Network architectures: verified properties\<close>

text \<open>
  Claim C7, as stated, fails: \<open>create_network\<close> passes its keyword arguments on, and
  \<open>create_arch2\<close> declares no parameter, so \<open>create_network('arch2', num_classes=10)\<close>
  raises \<open>TypeError\<close> at the call, before the body of \<open>create_arch2\<close> can raise
  \<open>NotImplementedError\<close>.
\<close>

theorem create_network_arch2_keyword:
  "create_network ''arch2'' [(''num_classes'', 10)] =
     Inl (TypeError (''create_arch2() got an unexpected keyword argument '' @
                     [CHR 0x27] @ ''num_classes'' @ [CHR 0x27])) \<and>
   create_network ''arch2'' [(''num_classes'', 10)] \<noteq> Inl NotImplementedError"
  by (simp add: create_network_def create_arch2_def unexpected_keyword_def)

text \<open>
  Claim C7, amended. \<open>create_network\<close> raises \<open>ValueError\<close> for every architecture
  name other than \<open>lenet\<close> and \<open>arch2\<close>, whatever the keyword arguments; for \<open>arch2\<close> it
  raises \<open>NotImplementedError\<close> when called without keyword arguments and \<open>TypeError\<close>
  when called with any. No network is returned in these cases.
\<close>

theorem create_network_errors:
  "(arch \<noteq> ''lenet'' \<and> arch \<noteq> ''arch2'' \<longrightarrow>
      create_network arch kw =
        Inl (ValueError (''Architecture name '' @ arch @ '' was not recognized''))) \<and>
   create_network ''arch2'' [] = Inl NotImplementedError \<and>
   create_network ''arch2'' ((k, v) # kw) = Inl (unexpected_keyword ''create_arch2'' k)"
  by (simp add: create_network_def create_arch2_def)

theorem create_network_errors_witness:
  "(''resnet'' \<noteq> ''lenet'' \<and> ''resnet'' \<noteq> ''arch2'') \<and>
   create_network ''resnet'' [(''num_classes'', 10)] =
     Inl (ValueError ''Architecture name resnet was not recognized'') \<and>
   create_network ''arch2'' [] = Inl NotImplementedError \<and>
   create_network ''arch2'' [(''depth'', 3), (''num_classes'', 10)] =
     Inl (unexpected_keyword ''create_arch2'' ''depth'')"
  using create_network_errors [of "''resnet''" "[(''num_classes'', 10)]" "''depth''" 3] by simp

section \<open>Training: verified properties\<close>

subsection \<open>The sample instance\<close>

lemma str_int_zero: "str_int 0 = ''0''"
  by (simp add: str_int_def digits.simps digit_def)

lemma fl_numeral [simp]: "numeral k \<le> (2::int) ^ 53 \<Longrightarrow> fl (numeral k) = numeral k"
  using fl_of_int[of "numeral k"] by simp

lemma fl_one' [simp]: "fl 1 = 1"
  using fl_of_int[of 1] by simp

lemmas float_ops = fadd_def fmul_def fdiv_def float_of_int_def fl_zero

lemmas accumulator_ops = Accumulator_def acc_add_def acc_get_def acc_ratio_def means_def

lemma sample_torch_sel:
  "net_to sample_torch = (\<lambda>w. w)"
  "optimizer_init sample_torch = (\<lambda>lr w. w)"
  "net_train sample_torch = (\<lambda>flag w. w)"
  "iterate sample_torch = (\<lambda>key w. (case key of Train \<Rightarrow> [2, 1] | Val \<Rightarrow> [1] | Test \<Rightarrow> [3], w))"
  "forward_loss sample_torch = (\<lambda>b (steps, passes). (steps, Suc passes))"
  "zero_grad sample_torch = (\<lambda>w. w)"
  "backward sample_torch = (\<lambda>w. w)"
  "step sample_torch = (\<lambda>(steps, passes). (Suc steps, passes))"
  "loss_sum_size sample_torch =
     (\<lambda>b (steps, passes). ((of_nat (2 * b), b), (steps, Suc passes)))"
  "evaluate_accuracy_gpu sample_torch = (\<lambda>key w. Inr (1, w))"
  "shape0 sample_torch = (\<lambda>b. b)"
  "state_dict sample_torch = fst"
  by (simp_all add: sample_torch_def)

lemma sample_evaluate:
  "evaluate sample_torch key (steps, passes) =
     Inr ((2, 1), (steps, passes + (if key = Train then 2 else 1)))"
  by (cases key)
     (simp_all add: evaluate_def evaluate_loss_def sample_torch_sel float_ops accumulator_ops
        numeral_2_eq_2)

lemma sample_train_phase:
  "run_phase sample_torch Train (steps, passes) = Inr ((steps + 2, passes + 6), [6, 3, 3])"
  by (simp add: run_phase_def sample_evaluate update_def sample_torch_sel float_ops
        accumulator_ops numeral_3_eq_3)

lemma sample_val_phase:
  "run_phase sample_torch Val (steps, passes) = Inr ((steps, passes + 2), [2, 1, 1])"
  by (simp add: run_phase_def sample_evaluate update_def sample_torch_sel float_ops
        accumulator_ops numeral_3_eq_3)

lemma format_3f_two: "format_3f 2 = ''2.000''"
  by (simp add: format_3f_def round_half_even_def Let_def digits.simps digit_def)

lemma format_3f_one: "format_3f 1 = ''1.000''"
  by (simp add: format_3f_def round_half_even_def Let_def digits.simps digit_def)

lemma sample_epoch_0:
  "train_epoch sample_torch ''lenet'' 2 0
     \<lparr>world = (steps, passes), files = fs, curve = cs, printed = ps\<rparr> =
     (\<lparr>world = (steps + 2, passes + 8),
       files = fs @ [(''checkpoints/model-lenet-0.pth'', steps + 2)],
       curve = cs @ [(1, [2, 1, 2, 1])], printed = ps\<rparr>,
      Inr \<lparr>train_metric = [6, 3, 3], val_metric = [2, 1, 1]\<rparr>)"
  by (simp add: train_epoch_def run_phases_def sample_train_phase sample_val_phase
        record_epoch_def float_ops accumulator_ops sample_torch_sel checkpoint_path_def
        str_int_zero)

lemma sample_epoch_1:
  "train_epoch sample_torch ''lenet'' 2 1
     \<lparr>world = (steps, passes), files = fs, curve = cs, printed = ps\<rparr> =
     (\<lparr>world = (steps + 2, passes + 6), files = fs, curve = cs @ [(2, [2, 1])],
       printed = ps\<rparr>,
      Inr \<lparr>train_metric = [6, 3, 3], val_metric = [0, 0, 0]\<rparr>)"
  by (simp add: train_epoch_def run_phases_def sample_train_phase
        record_epoch_def float_ops accumulator_ops sample_torch_sel numeral_3_eq_3)

lemma sample_final:
  "train_final sample_torch ''lenet'' (Some \<lparr>train_metric = [6, 3, 3], val_metric = v\<rparr>)
     \<lparr>world = (steps, passes), files = fs, curve = cs, printed = ps\<rparr> =
     (\<lparr>world = (steps, passes + 2),
       files = fs @ [(''checkpoints/model-lenet-final.pth'', steps)], curve = cs,
       printed = ps @ [''train loss 2.000, train accuracy 1.000, val loss 2.000, val accuracy 1.000, test loss 2.000, test accuracy 1.000'']\<rparr>,
      None)"
  by (simp add: train_final_def sample_evaluate float_ops accumulator_ops sample_torch_sel
        final_path_def summary_line_def format_3f_two format_3f_one)

lemma upto_0_1: "[0..1::int] = [0, 1]"
  by (simp add: upto.simps)

lemma sample_run:
  "train sample_torch ''lenet'' (1 / 1024) 2 2 (0, 0) =
     (\<lparr>world = (4, 16),
       files = [(''checkpoints/model-lenet-0.pth'', 2), (''checkpoints/model-lenet-final.pth'', 4)],
       curve = [(1, [2, 1, 2, 1]), (2, [2, 1])],
       printed = [''train loss 2.000, train accuracy 1.000, val loss 2.000, val accuracy 1.000, test loss 2.000, test accuracy 1.000'']\<rparr>,
      None)"
  by (simp add: train_def upto_0_1 sample_epoch_0 sample_epoch_1 sample_final sample_torch_sel)

subsection \<open>The batches of a phase\<close>



subsection \<open>The phases of an epoch\<close>

text \<open>
  Claim C4. For a cadence other than zero, the train phase runs in every epoch, and the
  validation phase runs after it exactly when the epoch number is a multiple of the
  cadence; in any other epoch the collaborators are left as the train phase left them
  and the validation accumulator keeps its three zeros.
\<close>

theorem val_phase_cadence:
  assumes "eval_every_n_epochs \<noteq> 0"
  shows "run_phases T eval_every_n_epochs epoch w =
     (case run_phase T Train w of
        Inl e \<Rightarrow> Inl e
      | Inr (w1, mt) \<Rightarrow>
          if epoch mod eval_every_n_epochs = 0 then
            (case run_phase T Val w1 of
               Inl e \<Rightarrow> Inl e
             | Inr (w2, mv) \<Rightarrow> Inr (w2, \<lparr>train_metric = mt, val_metric = mv\<rparr>))
          else Inr (w1, \<lparr>train_metric = mt, val_metric = [0, 0, 0]\<rparr>))"
  using assms
  by (auto simp: run_phases_def Accumulator_def numeral_3_eq_3 split: sum.splits prod.splits)

theorem val_phase_cadence_witness:
  "(2::int) \<noteq> 0 \<and>
   run_phases sample_torch 2 0 (0, 0) =
     Inr ((2, 8), \<lparr>train_metric = [6, 3, 3], val_metric = [2, 1, 1]\<rparr>) \<and>
   run_phases sample_torch 2 1 (2, 8) =
     Inr ((4, 14), \<lparr>train_metric = [6, 3, 3], val_metric = [0, 0, 0]\<rparr>)"
proof -
  have n: "(2::int) \<noteq> 0" by simp
  show ?thesis
    using val_phase_cadence[OF n, of sample_torch 0 "(0, 0)"]
      val_phase_cadence[OF n, of sample_torch 1 "(2, 8)"]
    by (simp add: sample_train_phase sample_val_phase)
qed

subsection \<open>Files written and lines printed\<close>

lemma record_epoch_effect:
  assumes "record_epoch T name n e ms r = (r', err)"
  shows "files r' = files r @
           (if e mod n = 0 then [(checkpoint_path name e, state_dict T (world r))] else [])"
    and "printed r' = printed r" and "world r' = world r"
  using assms
  by (auto simp: record_epoch_def Let_def split: if_splits sum.splits prod.splits)











subsection \<open>The variants of the sample instance\<close>

lemma frozen_torch_sel:
  "net_to frozen_torch = (\<lambda>w. w)"
  "optimizer_init frozen_torch = (\<lambda>lr w. w)"
  "net_train frozen_torch = (\<lambda>flag w. w)"
  "iterate frozen_torch = (\<lambda>key w. (case key of Train \<Rightarrow> [2, 1] | Val \<Rightarrow> [1] | Test \<Rightarrow> [3], w))"
  "forward_loss frozen_torch = (\<lambda>b (steps, passes). (steps, Suc passes))"
  "zero_grad frozen_torch = (\<lambda>w. w)"
  "backward frozen_torch = (\<lambda>w. w)"
  "step frozen_torch = (\<lambda>w. w)"
  "loss_sum_size frozen_torch =
     (\<lambda>b (steps, passes). ((of_nat (2 * b), b), (steps, Suc passes)))"
  "evaluate_accuracy_gpu frozen_torch = (\<lambda>key w. Inr (1, w))"
  "shape0 frozen_torch = (\<lambda>b. b)"
  "state_dict frozen_torch = fst"
  by (simp_all add: frozen_torch_def sample_torch_def)

lemma frozen_evaluate:
  "evaluate frozen_torch key (steps, passes) =
     Inr ((2, 1), (steps, passes + (if key = Train then 2 else 1)))"
  by (cases key)
     (simp_all add: evaluate_def evaluate_loss_def frozen_torch_sel float_ops accumulator_ops
        numeral_2_eq_2)

lemma frozen_train_phase:
  "run_phase frozen_torch Train (steps, passes) = Inr ((steps, passes + 6), [6, 3, 3])"
  by (simp add: run_phase_def frozen_evaluate update_def frozen_torch_sel float_ops
        accumulator_ops numeral_3_eq_3)

lemma frozen_val_phase:
  "run_phase frozen_torch Val (steps, passes) = Inr ((steps, passes + 2), [2, 1, 1])"
  by (simp add: run_phase_def frozen_evaluate update_def frozen_torch_sel float_ops
        accumulator_ops numeral_3_eq_3)

lemma frozen_epoch_0:
  "train_epoch frozen_torch ''lenet'' 2 0
     \<lparr>world = (steps, passes), files = fs, curve = cs, printed = ps\<rparr> =
     (\<lparr>world = (steps, passes + 8),
       files = fs @ [(''checkpoints/model-lenet-0.pth'', steps)],
       curve = cs @ [(1, [2, 1, 2, 1])], printed = ps\<rparr>,
      Inr \<lparr>train_metric = [6, 3, 3], val_metric = [2, 1, 1]\<rparr>)"
  by (simp add: train_epoch_def run_phases_def frozen_train_phase frozen_val_phase
        record_epoch_def float_ops accumulator_ops frozen_torch_sel checkpoint_path_def
        str_int_zero)

lemma frozen_epoch_1:
  "train_epoch frozen_torch ''lenet'' 2 1
     \<lparr>world = (steps, passes), files = fs, curve = cs, printed = ps\<rparr> =
     (\<lparr>world = (steps, passes + 6), files = fs, curve = cs @ [(2, [2, 1])],
       printed = ps\<rparr>,
      Inr \<lparr>train_metric = [6, 3, 3], val_metric = [0, 0, 0]\<rparr>)"
  by (simp add: train_epoch_def run_phases_def frozen_train_phase
        record_epoch_def float_ops accumulator_ops frozen_torch_sel numeral_3_eq_3)

lemma frozen_final:
  "train_final frozen_torch ''lenet'' (Some \<lparr>train_metric = [6, 3, 3], val_metric = v\<rparr>)
     \<lparr>world = (steps, passes), files = fs, curve = cs, printed = ps\<rparr> =
     (\<lparr>world = (steps, passes + 2),
       files = fs @ [(''checkpoints/model-lenet-final.pth'', steps)], curve = cs,
       printed = ps @ [''train loss 2.000, train accuracy 1.000, val loss 2.000, val accuracy 1.000, test loss 2.000, test accuracy 1.000'']\<rparr>,
      None)"
  by (simp add: train_final_def frozen_evaluate float_ops accumulator_ops frozen_torch_sel
        final_path_def summary_line_def format_3f_two format_3f_one)

lemma frozen_run:
  "train frozen_torch ''lenet'' (1 / 1024) 2 2 (7, 0) =
     (\<lparr>world = (7, 16),
       files = [(''checkpoints/model-lenet-0.pth'', 7), (''checkpoints/model-lenet-final.pth'', 7)],
       curve = [(1, [2, 1, 2, 1]), (2, [2, 1])],
       printed = [''train loss 2.000, train accuracy 1.000, val loss 2.000, val accuracy 1.000, test loss 2.000, test accuracy 1.000'']\<rparr>,
      None)"
  by (simp add: train_def upto_0_1 frozen_epoch_0 frozen_epoch_1 frozen_final frozen_torch_sel)

lemma lazy_torch_sel:
  "net_to lazy_torch = (\<lambda>w. w)"
  "optimizer_init lazy_torch = (\<lambda>lr w. w)"
  "net_train lazy_torch = (\<lambda>flag w. w)"
  "iterate lazy_torch = (\<lambda>key w. (case key of Train \<Rightarrow> [2, 1] | Val \<Rightarrow> [1] | Test \<Rightarrow> [3], w))"
  "forward_loss lazy_torch = (\<lambda>b (steps, passes). (steps, Suc passes))"
  "zero_grad lazy_torch = (\<lambda>w. w)"
  "backward lazy_torch = (\<lambda>w. w)"
  "step lazy_torch = (\<lambda>(steps, passes). (Suc steps, passes))"
  "loss_sum_size lazy_torch =
     (\<lambda>b (steps, passes). ((of_nat (2 * b), b), (steps, Suc passes)))"
  "evaluate_accuracy_gpu lazy_torch = (\<lambda>key w. Inr (1, w))"
  "shape0 lazy_torch = (\<lambda>b. b)"
  "state_dict lazy_torch = (\<lambda>(steps, passes). if passes = 0 then None else Some steps)"
  by (simp_all add: lazy_torch_def)

lemma lazy_evaluate:
  "evaluate lazy_torch key (steps, passes) =
     Inr ((2, 1), (steps, passes + (if key = Train then 2 else 1)))"
  by (cases key)
     (simp_all add: evaluate_def evaluate_loss_def lazy_torch_sel float_ops accumulator_ops
        numeral_2_eq_2)

lemma lazy_val_phase:
  "run_phase lazy_torch Val (steps, passes) = Inr ((steps, passes + 2), [2, 1, 1])"
  by (simp add: run_phase_def lazy_evaluate update_def lazy_torch_sel float_ops
        accumulator_ops numeral_3_eq_3)

lemma lazy_framed: "frames_parameters lazy_torch (\<lambda>w. 0 < snd w)"
  by (auto simp: frames_parameters_def lazy_torch_sel)

lemma frozen_framed: "frames_parameters frozen_torch (\<lambda>w. True)"
  by (auto simp: frames_parameters_def frozen_torch_sel)

lemma empty_torch_sel:
  "iterate empty_torch = (\<lambda>key w. ([], w))"
  "net_train empty_torch = (\<lambda>flag w. w)"
  by (simp_all add: empty_torch_def sample_torch_def)

subsection \<open>Who writes the parameters\<close>

lemma evaluate_loss_batches_optimizer:
  "evaluate_loss_batches (T\<lparr>zero_grad := z, backward := g, step := f\<rparr>) bs w m =
   evaluate_loss_batches T bs w m"
  by (induction bs arbitrary: w m) (simp_all cong: prod.case_cong)

lemma evaluate_optimizer:
  "evaluate (T\<lparr>zero_grad := z, backward := g, step := f\<rparr>) key w = evaluate T key w"
  by (simp add: evaluate_def evaluate_loss_def evaluate_loss_batches_optimizer
        cong: sum.case_cong prod.case_cong)

lemma train_batches_val_optimizer:
  "train_batches (T\<lparr>zero_grad := z, backward := g, step := f\<rparr>) Val bs w m =
   train_batches T Val bs w m"
  by (induction bs arbitrary: w m)
     (simp_all add: evaluate_optimizer update_def cong: sum.case_cong prod.case_cong)

lemma run_phase_val_optimizer:
  "run_phase (T\<lparr>zero_grad := z, backward := g, step := f\<rparr>) Val w = run_phase T Val w"
  by (simp add: run_phase_def train_batches_val_optimizer)

lemma train_final_optimizer:
  "train_final (T\<lparr>zero_grad := z, backward := g, step := f\<rparr>) name ms r =
   train_final T name ms r"
  by (simp add: train_final_def evaluate_optimizer
        cong: sum.case_cong prod.case_cong option.case_cong)

lemma evaluate_loss_batches_frame:
  assumes "frames_parameters T ready" "ready w"
  shows "ready (fst (evaluate_loss_batches T bs w m)) \<and>
         state_dict T (fst (evaluate_loss_batches T bs w m)) = state_dict T w"
  using assms(2)
proof (induction bs arbitrary: w m)
  case Nil
  then show ?case by simp
next
  case (Cons b bs)
  obtain s n w' where l: "loss_sum_size T b w = ((s, n), w')" by (metis surj_pair)
  have "ready (snd (loss_sum_size T b w)) \<and>
        state_dict T (snd (loss_sum_size T b w)) = state_dict T w"
    using assms(1) Cons.prems by (simp add: frames_parameters_def)
  then have r: "ready w'" "state_dict T w' = state_dict T w" by (simp_all add: l)
  show ?case using Cons.IH[OF r(1)] r(2) by (simp add: l)
qed

lemma evaluate_loss_frame:
  assumes "frames_parameters T ready" "ready w" "evaluate_loss T key w = Inr (l, w')"
  shows "ready w' \<and> state_dict T w' = state_dict T w"
proof -
  obtain bs w1 where i: "iterate T key w = (bs, w1)" by (metis surj_pair)
  obtain w2 metric where e: "evaluate_loss_batches T bs w1 (Accumulator 2) = (w2, metric)"
    by (metis surj_pair)
  have "ready (snd (iterate T key w)) \<and> state_dict T (snd (iterate T key w)) = state_dict T w"
    using assms(1,2) by (simp add: frames_parameters_def)
  then have a: "ready w1" "state_dict T w1 = state_dict T w" by (simp_all add: i)
  have b: "ready w2 \<and> state_dict T w2 = state_dict T w1"
    using evaluate_loss_batches_frame[OF assms(1) a(1), of bs "Accumulator 2"] by (simp add: e)
  have "w' = w2" using assms(3) by (simp add: evaluate_loss_def i e split: sum.splits)
  then show ?thesis using a b by simp
qed

lemma evaluate_frame:
  assumes "frames_parameters T ready" "ready w" "evaluate T key w = Inr (res, w')"
  shows "ready w' \<and> state_dict T w' = state_dict T w"
proof -
  from assms(3) obtain l w1 a where
    e1: "evaluate_loss T key w = Inr (l, w1)" and
    e2: "evaluate_accuracy_gpu T key w1 = Inr (a, w')"
    by (auto simp: evaluate_def split: sum.splits prod.splits)
  note f = evaluate_loss_frame[OF assms(1,2) e1]
  have "ready w' \<and> state_dict T w' = state_dict T w1"
    using assms(1) e2 f unfolding frames_parameters_def by blast
  then show ?thesis using f by simp
qed

lemma before_step_frame:
  assumes "frames_parameters T ready" "ready w"
  shows "ready (backward T (zero_grad T (forward_loss T b w))) \<and>
         state_dict T (backward T (zero_grad T (forward_loss T b w))) = state_dict T w"
  using assms by (simp add: frames_parameters_def)

lemma update_ready:
  assumes "frames_parameters T ready" "ready w"
  shows "ready (update T phase (forward_loss T b w))"
  using assms before_step_frame[OF assms, of b]
  by (simp add: update_def frames_parameters_def)

lemma update_frame:
  assumes "frames_parameters T ready" "ready w"
    and "phase \<noteq> Train \<or> (\<forall>v. ready v \<longrightarrow> state_dict T (step T v) = state_dict T v)"
  shows "state_dict T (update T phase (forward_loss T b w)) = state_dict T w"
  using assms before_step_frame[OF assms(1,2), of b]
  by (auto simp: update_def frames_parameters_def)

lemma train_batches_frame:
  assumes "frames_parameters T ready"
    and "phase \<noteq> Train \<or> (\<forall>v. ready v \<longrightarrow> state_dict T (step T v) = state_dict T v)"
    and "ready w" "train_batches T phase bs w m = Inr (w', m')"
  shows "ready w' \<and> state_dict T w' = state_dict T w"
  using assms(3,4)
proof (induction bs arbitrary: w m)
  case Nil
  then show ?case by simp
next
  case (Cons b bs)
  from Cons.prems(2) obtain l a w1 where
    e: "evaluate T phase (update T phase (forward_loss T b w)) = Inr ((l, a), w1)" and
    r: "train_batches T phase bs w1
          (acc_add m [fmul l (float_of_int (int (shape0 T b))),
                      fmul a (float_of_int (int (shape0 T b))),
                      float_of_int (int (shape0 T b))]) = Inr (w', m')"
    by (auto split: sum.splits prod.splits)
  note u = update_ready[OF assms(1) Cons.prems(1), of phase b]
  note f = evaluate_frame[OF assms(1) u e]
  have "state_dict T w1 = state_dict T w"
    using f update_frame[OF assms(1) Cons.prems(1) assms(2), of b] by simp
  then show ?case using Cons.IH[OF conjunct1[OF f] r] by simp
qed

lemma run_phase_frame:
  assumes "frames_parameters T ready"
    and "phase \<noteq> Train \<or> (\<forall>v. ready v \<longrightarrow> state_dict T (step T v) = state_dict T v)"
    and "ready w" "run_phase T phase w = Inr (w', m')"
  shows "ready w' \<and> state_dict T w' = state_dict T w"
proof -
  obtain bs w1 where i: "iterate T phase (net_train T (phase = Train) w) = (bs, w1)"
    by (metis surj_pair)
  have n: "ready (net_train T (phase = Train) w) \<and>
           state_dict T (net_train T (phase = Train) w) = state_dict T w"
    using assms(1,3) by (simp add: frames_parameters_def)
  have "ready (snd (iterate T phase (net_train T (phase = Train) w))) \<and>
        state_dict T (snd (iterate T phase (net_train T (phase = Train) w))) =
        state_dict T (net_train T (phase = Train) w)"
    using assms(1) n by (simp add: frames_parameters_def)
  then have a: "ready w1" "state_dict T w1 = state_dict T w" using n by (simp_all add: i)
  have "train_batches T phase bs w1 (Accumulator 3) = Inr (w', m')"
    using assms(4) by (simp add: run_phase_def i)
  from train_batches_frame[OF assms(1,2) a(1) this] a(2) show ?thesis by simp
qed

lemma run_phases_frame:
  assumes "frames_parameters T ready"
    and "\<forall>v. ready v \<longrightarrow> state_dict T (step T v) = state_dict T v"
    and "ready w" "run_phases T n e w = Inr (w', ms)"
  shows "ready w' \<and> state_dict T w' = state_dict T w"
proof -
  from assms(4) obtain w1 mt where t: "run_phase T Train w = Inr (w1, mt)"
    by (auto simp: run_phases_def split: sum.splits prod.splits)
  have a: "ready w1 \<and> state_dict T w1 = state_dict T w"
    using run_phase_frame[OF assms(1) _ assms(3) t] assms(2) by blast
  show ?thesis
  proof (cases "e mod n = 0")
    case True
    with assms(4) t obtain mv where v: "run_phase T Val w1 = Inr (w', mv)"
      by (auto simp: run_phases_def split: sum.splits prod.splits if_splits)
    show ?thesis using run_phase_frame[OF assms(1) _ conjunct1[OF a] v] a by simp
  next
    case False
    with assms(4) t have "w' = w1"
      by (auto simp: run_phases_def split: sum.splits prod.splits if_splits)
    with a show ?thesis by simp
  qed
qed

lemma train_epoch_keeps:
  assumes "frames_parameters T ready"
    and "\<forall>v. ready v \<longrightarrow> state_dict T (step T v) = state_dict T v"
    and "keeps T ready p r" "train_epoch T name n e r = (r', x)"
  shows "keeps T ready p r'"
proof (cases "run_phases T n e (world r)")
  case (Inl err)
  with assms(4) have "r' = r" by (simp add: train_epoch_def)
  with assms(3) show ?thesis by simp
next
  case (Inr res)
  obtain w ms where res: "res = (w, ms)" by (metis surj_pair)
  have "ready (world r)" using assms(3) by (simp add: keeps_def)
  from run_phases_frame[OF assms(1,2) this] Inr res assms(3)
  have w: "ready w" "state_dict T w = p" by (simp_all add: keeps_def)
  obtain r2 err where re: "record_epoch T name n e ms (r\<lparr>world := w\<rparr>) = (r2, err)"
    by (metis surj_pair)
  have "r' = r2" using assms(4) Inr res re by (auto simp: train_epoch_def split: option.splits)
  moreover have "keeps T ready p r2"
    using record_epoch_effect[OF re] w assms(3) by (auto simp: keeps_def)
  ultimately show ?thesis by simp
qed

lemma train_epochs_keeps:
  assumes "frames_parameters T ready"
    and "\<forall>v. ready v \<longrightarrow> state_dict T (step T v) = state_dict T v"
    and "keeps T ready p r" "train_epochs T name n es r ms = (r', x)"
  shows "keeps T ready p r'"
  using assms(3,4)
proof (induction es arbitrary: r ms)
  case Nil
  then show ?case by simp
next
  case (Cons e es)
  obtain r1 y where ep: "train_epoch T name n e r = (r1, y)" by (metis surj_pair)
  have k1: "keeps T ready p r1" using train_epoch_keeps[OF assms(1,2) Cons.prems(1) ep] .
  show ?case
  proof (cases y)
    case (Inl err)
    with Cons.prems(2) ep have "r' = r1" by simp
    with k1 show ?thesis by simp
  next
    case (Inr m1)
    with Cons.prems(2) ep have "train_epochs T name n es r1 (Some m1) = (r', x)" by simp
    from Cons.IH[OF k1 this] show ?thesis .
  qed
qed

lemma train_final_keeps:
  assumes "frames_parameters T ready" "keeps T ready p r" "train_final T name ms r = (r', err)"
  shows "keeps T ready p r'"
proof (cases "evaluate T Test (world r)")
  case (Inl e)
  with assms(3) have "r' = r" by (simp add: train_final_def)
  with assms(2) show ?thesis by simp
next
  case (Inr res1)
  obtain tl' ta w1 where r1: "res1 = ((tl', ta), w1)" by (metis surj_pair)
  have "ready (world r)" using assms(2) by (simp add: keeps_def)
  from evaluate_frame[OF assms(1) this] Inr r1 assms(2)
  have w1: "ready w1" "state_dict T w1 = p" by (simp_all add: keeps_def)
  show ?thesis
  proof (cases "evaluate T Val w1")
    case (Inl e)
    with assms(3) Inr r1 have "r' = r\<lparr>world := w1\<rparr>" by (simp add: train_final_def)
    with assms(2) w1 show ?thesis by (simp add: keeps_def)
  next
    case (Inr res2)
    obtain vl va w2 where r2: "res2 = ((vl, va), w2)" by (metis surj_pair)
    from evaluate_frame[OF assms(1) w1(1)] Inr r2 w1
    have w2: "ready w2" "state_dict T w2 = p" by simp_all
    have "r' = r\<lparr>world := w2\<rparr> \<or>
          (\<exists>line. r' = r\<lparr>world := w2, files := files r @ [(final_path name, state_dict T w2)],
                          printed := printed r @ [line]\<rparr>)"
      using assms(3) \<open>evaluate T Test (world r) = Inr res1\<close> r1 Inr r2
      by (auto simp: train_final_def split: option.splits sum.splits prod.splits)
    with assms(2) w2 show ?thesis by (auto simp: keeps_def)
  qed
qed

lemma train_keeps:
  assumes "frames_parameters T ready"
    and "\<forall>v. ready v \<longrightarrow> state_dict T (step T v) = state_dict T v"
    and "ready w" "train T name lr epochs n w = (r, err)"
  shows "keeps T ready (state_dict T w) r"
proof -
  define r0 :: "('a, 'c) run" where
    "r0 = \<lparr>world = optimizer_init T lr (net_to T w), files = [], curve = [], printed = []\<rparr>"
  have k0: "keeps T ready (state_dict T w) r0"
    using assms(1,3) by (simp add: keeps_def r0_def frames_parameters_def)
  obtain r1 x where l: "train_epochs T name n [0..epochs - 1] r0 None = (r1, x)"
    by (metis surj_pair)
  have k1: "keeps T ready (state_dict T w) r1" using train_epochs_keeps[OF assms(1,2) k0 l] .
  show ?thesis
  proof (cases x)
    case (Inl e)
    with assms(4) l have "r = r1" by (simp add: train_def r0_def)
    with k1 show ?thesis by simp
  next
    case (Inr ms)
    with assms(4) l have "train_final T name ms r1 = (r, err)" by (simp add: train_def r0_def)
    from train_final_keeps[OF assms(1) k1 this] show ?thesis .
  qed
qed

text \<open>
  Claim C9, as stated, fails, in two ways. The parameters and the checkpoint files are
  not the only state that persists across the epochs: the points given to the animator
  accumulate from epoch to epoch, and after a run of two epochs the curve holds the point
  of epoch 0 next to the point of epoch 1. And the optimizer step is not the only writer
  of the parameters: the network of \<open>create_lenet\<close> begins with a lazily initialised
  layer, whose parameters are written by its first forward pass, so that in the first
  batch of the train phase the parameters have changed before \<open>optimizer.step()\<close> is
  reached.
\<close>

theorem curve_persists_and_first_pass_writes:
  "curve (fst (train sample_torch ''lenet'' (1 / 1024) 2 2 (0, 0))) =
     [(1, [2, 1, 2, 1]), (2, [2, 1])] \<and>
   state_dict lazy_torch (0, 0) = None \<and>
   state_dict lazy_torch
     (backward lazy_torch (zero_grad lazy_torch (forward_loss lazy_torch 2 (0, 0)))) = Some 0"
  by (simp add: sample_run lazy_torch_sel)

text \<open>
  Claim C9, amended. \<open>train\<close> calls the optimizer in the train phase only: the batches
  of a validation phase, a whole validation phase, every call of \<open>evaluate\<close> and the
  last step with its evaluations on the test and validation loaders give the same result
  whatever \<open>optimizer.zero_grad()\<close>, \<open>loss.backward()\<close> and \<open>optimizer.step()\<close> do.
  Given collaborators of which no call other than \<open>optimizer.step()\<close> changes the
  parameters of a network that is ready (one whose lazily initialised layers, if it has
  any, have made their first forward pass), and a network that is ready: the batches of a
  validation phase, a whole validation phase and every call of \<open>evaluate\<close> (the final
  evaluations on the test and validation loaders among them) leave the parameters
  unchanged; in a batch of the train phase the parameters are still the old ones right
  before \<open>optimizer.step()\<close> and are what that step made of them when the batch is
  done; and with an optimizer step that changes nothing, a whole run of \<open>train\<close>,
  however it ends, leaves the parameters as they were and every checkpoint written holds
  them.
\<close>

theorem optimizer_step_only_in_train_phase:
  fixes T :: "('w, 'b, 'p) torch" and z g f :: "'w \<Rightarrow> 'w"
  defines "T' \<equiv> T\<lparr>zero_grad := z, backward := g, step := f\<rparr>"
  shows "train_batches T' Val bs w m = train_batches T Val bs w m \<and>
         run_phase T' Val w = run_phase T Val w \<and>
         evaluate T' key w = evaluate T key w \<and>
         train_final T' model_file_name ms r0 = train_final T model_file_name ms r0 \<and>
         (frames_parameters T ready \<and> ready w \<longrightarrow>
            (train_batches T Val bs w m = Inr (w', m') \<longrightarrow> state_dict T w' = state_dict T w) \<and>
            (run_phase T Val w = Inr (w', m') \<longrightarrow> state_dict T w' = state_dict T w) \<and>
            (evaluate T key w = Inr (res, w') \<longrightarrow> state_dict T w' = state_dict T w) \<and>
            (train_batches T Train [b] w m = Inr (w', m') \<longrightarrow>
               state_dict T (backward T (zero_grad T (forward_loss T b w))) = state_dict T w \<and>
               state_dict T w' =
                 state_dict T (step T (backward T (zero_grad T (forward_loss T b w))))) \<and>
            ((\<forall>v. ready v \<longrightarrow> state_dict T (step T v) = state_dict T v) \<longrightarrow>
               train T model_file_name lr epochs n w = (r, err) \<longrightarrow>
               state_dict T (world r) = state_dict T w \<and>
               (\<forall>f \<in> set (files r). snd f = state_dict T w)))"
proof (intro conjI impI)
  show "train_batches T' Val bs w m = train_batches T Val bs w m"
    unfolding T'_def by (rule train_batches_val_optimizer)
  show "run_phase T' Val w = run_phase T Val w"
    unfolding T'_def by (rule run_phase_val_optimizer)
  show "evaluate T' key w = evaluate T key w"
    unfolding T'_def by (rule evaluate_optimizer)
  show "train_final T' model_file_name ms r0 = train_final T model_file_name ms r0"
    unfolding T'_def by (rule train_final_optimizer)
next
  assume h: "frames_parameters T ready \<and> ready w"
    and "train_batches T Val bs w m = Inr (w', m')"
  then show "state_dict T w' = state_dict T w"
    using train_batches_frame[of T ready Val w bs m w' m'] by simp
next
  assume h: "frames_parameters T ready \<and> ready w"
    and "run_phase T Val w = Inr (w', m')"
  then show "state_dict T w' = state_dict T w"
    using run_phase_frame[of T ready Val w w' m'] by simp
next
  assume h: "frames_parameters T ready \<and> ready w"
    and "evaluate T key w = Inr (res, w')"
  then show "state_dict T w' = state_dict T w"
    using evaluate_frame[of T ready w key res w'] by simp
next
  assume h: "frames_parameters T ready \<and> ready w"
  then show "state_dict T (backward T (zero_grad T (forward_loss T b w))) = state_dict T w"
    using before_step_frame[of T ready w b] by simp
next
  assume h: "frames_parameters T ready \<and> ready w"
    and "train_batches T Train [b] w m = Inr (w', m')"
  then obtain x where e: "evaluate T Train (update T Train (forward_loss T b w)) = Inr (x, w')"
    by (auto split: sum.splits prod.splits)
  have "ready (update T Train (forward_loss T b w))"
    using h update_ready[of T ready w Train b] by simp
  from evaluate_frame[OF conjunct1[OF h] this e]
  show "state_dict T w' = state_dict T (step T (backward T (zero_grad T (forward_loss T b w))))"
    by (simp add: update_def)
next
  assume h: "frames_parameters T ready \<and> ready w"
    and s: "\<forall>v. ready v \<longrightarrow> state_dict T (step T v) = state_dict T v"
    and t: "train T model_file_name lr epochs n w = (r, err)"
  from train_keeps[OF conjunct1[OF h] s conjunct2[OF h] t]
  show "state_dict T (world r) = state_dict T w" "\<forall>f \<in> set (files r). snd f = state_dict T w"
    by (simp_all add: keeps_def)
qed

theorem optimizer_step_only_in_train_phase_witness:
  "run_phase (lazy_torch\<lparr>zero_grad := \<lambda>w. w, backward := \<lambda>w. w, step := \<lambda>w. (0, 0)\<rparr>) Val (5, 1) =
     Inr ((5, 3), [2, 1, 1]) \<and>
   train_batches lazy_torch Val [1] (5, 1) [0, 0, 0] = Inr ((5, 3), [2, 1, 1]) \<and>
   run_phase lazy_torch Val (5, 1) = Inr ((5, 3), [2, 1, 1]) \<and>
   state_dict lazy_torch (5, 3) = state_dict lazy_torch (5, 1) \<and>
   evaluate lazy_torch Test (5, 1) = Inr ((2, 1), (5, 2)) \<and>
   state_dict lazy_torch (5, 2) = state_dict lazy_torch (5, 1) \<and>
   train_batches lazy_torch Train [2] (5, 1) [0, 0, 0] = Inr ((6, 4), [4, 2, 2]) \<and>
   state_dict lazy_torch (6, 4) =
     state_dict lazy_torch
       (step lazy_torch (backward lazy_torch (zero_grad lazy_torch
          (forward_loss lazy_torch 2 (5, 1))))) \<and>
   train frozen_torch ''lenet'' (1 / 1024) 2 2 (7, 0) =
     (\<lparr>world = (7, 16),
       files = [(''checkpoints/model-lenet-0.pth'', 7), (''checkpoints/model-lenet-final.pth'', 7)],
       curve = [(1, [2, 1, 2, 1]), (2, [2, 1])],
       printed = [''train loss 2.000, train accuracy 1.000, val loss 2.000, val accuracy 1.000, test loss 2.000, test accuracy 1.000'']\<rparr>,
      None) \<and>
   state_dict frozen_torch (7, 16) = state_dict frozen_torch (7, 0) \<and>
   snd (''checkpoints/model-lenet-0.pth'', 7 :: nat) = state_dict frozen_torch (7, 0) \<and>
   snd (''checkpoints/model-lenet-final.pth'', 7 :: nat) = state_dict frozen_torch (7, 0)"
proof -
  have v1: "train_batches lazy_torch Val [1] (5, 1) [0, 0, 0] = Inr ((5, 3), [2, 1, 1])"
    by (simp add: lazy_evaluate update_def lazy_torch_sel float_ops accumulator_ops)
  have v2: "run_phase lazy_torch Val (5, 1) = Inr ((5, 3), [2, 1, 1])"
    by (simp add: lazy_val_phase)
  have v3: "evaluate lazy_torch Test (5, 1) = Inr ((2, 1), (5, 2))"
    by (simp add: lazy_evaluate)
  have t1: "train_batches lazy_torch Train [2] (5, 1) [0, 0, 0] = Inr ((6, 4), [4, 2, 2])"
    by (simp add: lazy_evaluate update_def lazy_torch_sel float_ops accumulator_ops)
  have hl: "frames_parameters lazy_torch (\<lambda>w. 0 < snd w) \<and> 0 < snd (5 :: nat, 1 :: nat)"
    by (simp add: lazy_framed)
  have hf: "frames_parameters frozen_torch (\<lambda>w. True) \<and> True"
    by (simp add: frozen_framed)
  note a = optimizer_step_only_in_train_phase[where T = lazy_torch
      and z = "\<lambda>w. w" and g = "\<lambda>w. w" and f = "\<lambda>w. (0, 0)"
      and ready = "\<lambda>w. 0 < snd w" and w = "(5, 1)" and bs = "[1]" and m = "[0, 0, 0]"
      and w' = "(5, 3)" and m' = "[2, 1, 1]"]
  note b = optimizer_step_only_in_train_phase[where T = lazy_torch
      and ready = "\<lambda>w. 0 < snd w" and w = "(5, 1)" and key = Test and res = "(2, 1)"
      and w' = "(5, 2)"]
  note c = optimizer_step_only_in_train_phase[where T = lazy_torch
      and ready = "\<lambda>w. 0 < snd w" and w = "(5, 1)" and m = "[0, 0, 0]" and b = 2
      and w' = "(6, 4)" and m' = "[4, 2, 2]"]
  note d = optimizer_step_only_in_train_phase[where T = frozen_torch
      and ready = "\<lambda>w. True" and w = "(7, 0)" and model_file_name = "''lenet''"
      and lr = "1 / 1024" and epochs = 2 and n = 2 and err = None]
  have c0: "run_phase (lazy_torch\<lparr>zero_grad := \<lambda>w. w, backward := \<lambda>w. w, step := \<lambda>w. (0, 0)\<rparr>)
              Val (5, 1) = Inr ((5, 3), [2, 1, 1])"
    using conjunct1[OF conjunct2[OF a]] v2 by (rule trans)
  note a' = mp[OF conjunct2[OF conjunct2[OF conjunct2[OF conjunct2[OF a]]]] hl]
  note b' = mp[OF conjunct2[OF conjunct2[OF conjunct2[OF conjunct2[OF b]]]] hl]
  note c' = mp[OF conjunct2[OF conjunct2[OF conjunct2[OF conjunct2[OF c]]]] hl]
  note d' = mp[OF conjunct2[OF conjunct2[OF conjunct2[OF conjunct2[OF d]]]] hf]
  have c1: "state_dict lazy_torch (5, 3) = state_dict lazy_torch (5, 1)"
    by (rule mp[OF conjunct1[OF conjunct2[OF a']] v2])
  have c3: "state_dict lazy_torch (5, 2) = state_dict lazy_torch (5, 1)"
    by (rule mp[OF conjunct1[OF conjunct2[OF conjunct2[OF b']]] v3])
  have c4: "state_dict lazy_torch (6, 4) =
     state_dict lazy_torch
       (step lazy_torch (backward lazy_torch (zero_grad lazy_torch
          (forward_loss lazy_torch 2 (5, 1)))))"
    by (rule conjunct2[OF mp[OF conjunct1[OF conjunct2[OF conjunct2[OF conjunct2[OF c']]]] t1]])
  have h: "\<forall>v. True \<longrightarrow> state_dict frozen_torch (step frozen_torch v) = state_dict frozen_torch v"
    by (simp add: frozen_torch_sel)
  note e = mp[OF mp[OF conjunct2[OF conjunct2[OF conjunct2[OF conjunct2[OF d']]]] h] frozen_run]
  have c5: "state_dict frozen_torch (7, 16) = state_dict frozen_torch (7, 0)"
    using conjunct1[OF e] by (simp only: run.select_convs)
  have c6: "\<forall>f \<in> set [(''checkpoints/model-lenet-0.pth'', 7 :: nat), (''checkpoints/model-lenet-final.pth'', 7)].
        snd f = state_dict frozen_torch (7, 0)"
    using conjunct2[OF e] by (simp only: run.select_convs)
  have c7: "snd (''checkpoints/model-lenet-0.pth'', 7 :: nat) = state_dict frozen_torch (7, 0)"
    by (rule bspec[OF c6]) simp
  have c8: "snd (''checkpoints/model-lenet-final.pth'', 7 :: nat) = state_dict frozen_torch (7, 0)"
    by (rule bspec[OF c6]) simp
  show ?thesis
    by (intro conjI) (rule c0 v1 v2 c1 v3 c3 t1 c4 frozen_run c5 c7 c8)+
qed

subsection \<open>Reads of a mean\<close>

lemma float_of_size_ge_one:
  assumes "0 < n" shows "1 \<le> float_of_int (int n)"
proof -
  have "(1::rat) \<le> of_int (int n)" using assms by simp
  then have "fl 1 \<le> fl (of_int (int n))" by (rule fl_mono)
  then show ?thesis by (simp add: float_of_int_def)
qed

lemma fadd_ge_one:
  assumes "0 \<le> a" "1 \<le> b" shows "1 \<le> fadd a b"
proof -
  have "1 \<le> a + b" using assms by simp
  then have "fl 1 \<le> fl (a + b)" by (rule fl_mono)
  then show ?thesis by (simp add: fadd_def)
qed

lemma evaluate_loss_batches_count:
  assumes "\<forall>b \<in> set bs. \<forall>v. 0 < snd (fst (loss_sum_size T b v))" "bs \<noteq> []" "0 \<le> c"
  shows "\<exists>x' c'. snd (evaluate_loss_batches T bs w [x, c]) = [x', c'] \<and> 1 \<le> c'"
  using assms
proof (induction bs arbitrary: w x c)
  case Nil
  then show ?case by simp
next
  case (Cons b bs)
  obtain s n w' where l: "loss_sum_size T b w = ((s, n), w')" by (metis surj_pair)
  have "0 < snd (fst (loss_sum_size T b w))" using Cons.prems(1) by simp
  then have n: "0 < n" by (simp add: l)
  have c1: "1 \<le> fadd c (float_of_int (int n))"
    using Cons.prems(3) float_of_size_ge_one[OF n] by (rule fadd_ge_one)
  have step: "evaluate_loss_batches T (b # bs) w [x, c] =
              evaluate_loss_batches T bs w' [fadd x s, fadd c (float_of_int (int n))]"
    by (simp add: l acc_add_def)
  show ?case
  proof (cases "bs = []")
    case True
    then show ?thesis using c1 step by simp
  next
    case False
    have "\<forall>b \<in> set bs. \<forall>v. 0 < snd (fst (loss_sum_size T b v))" using Cons.prems(1) by simp
    from Cons.IH[OF this False, of "fadd c (float_of_int (int n))" w' "fadd x s"] c1 step
    show ?thesis by simp
  qed
qed

lemma evaluate_loss_nonempty:
  assumes "iterate T key w = (bs, w1)" "bs \<noteq> []"
    and "\<forall>b \<in> set bs. \<forall>v. 0 < snd (fst (loss_sum_size T b v))"
  shows "\<exists>l w'. evaluate_loss T key w = Inr (l, w')"
proof -
  obtain w2 metric where e: "evaluate_loss_batches T bs w1 [0, 0] = (w2, metric)"
    by (metis surj_pair)
  from evaluate_loss_batches_count[OF assms(3,2), of 0 w1 0] obtain x' c' where
    m: "metric = [x', c']" and c: "1 \<le> c'" by (auto simp: e)
  have "evaluate_loss T key w = Inr (fl (x' / c'), w2)"
    using c by (simp add: evaluate_loss_def assms(1) Accumulator_def numeral_2_eq_2 e m
        acc_ratio_def acc_get_def fdiv_def)
  then show ?thesis by blast
qed

lemma evaluate_loss_empty:
  assumes "iterate T key w = ([], w1)"
  shows "evaluate_loss T key w = Inl ZeroDivisionError"
  by (simp add: evaluate_loss_def assms Accumulator_def numeral_2_eq_2 acc_ratio_def
      acc_get_def fdiv_def)

lemma train_batches_count:
  assumes "\<forall>b \<in> set bs. 0 < shape0 T b" "bs \<noteq> []" "0 \<le> c"
    and "train_batches T phase bs w [x, y, c] = Inr (w', m')"
  shows "\<exists>x' y' c'. m' = [x', y', c'] \<and> 1 \<le> c'"
  using assms
proof (induction bs arbitrary: w x y c)
  case Nil
  then show ?case by simp
next
  case (Cons b bs)
  from Cons.prems(4) obtain l a w1 where
    e: "evaluate T phase (update T phase (forward_loss T b w)) = Inr ((l, a), w1)" and
    r: "train_batches T phase bs w1
          [fadd x (fmul l (float_of_int (int (shape0 T b)))),
           fadd y (fmul a (float_of_int (int (shape0 T b)))),
           fadd c (float_of_int (int (shape0 T b)))] = Inr (w', m')"
    by (auto simp: acc_add_def split: sum.splits prod.splits)
  have n: "0 < shape0 T b" using Cons.prems(1) by simp
  have c1: "1 \<le> fadd c (float_of_int (int (shape0 T b)))"
    using Cons.prems(3) float_of_size_ge_one[OF n] by (rule fadd_ge_one)
  show ?case
  proof (cases "bs = []")
    case True
    then show ?thesis using c1 r by auto
  next
    case False
    have "\<forall>b \<in> set bs. 0 < shape0 T b" using Cons.prems(1) by simp
    from Cons.IH[OF this False _ r] c1 show ?thesis by simp
  qed
qed

lemma means_after_batches:
  assumes "train_batches T phase bs w (Accumulator 3) = Inr (w', m')" "bs \<noteq> []"
    and "\<forall>b \<in> set bs. 0 < shape0 T b"
  shows "\<exists>l a. means m' = Inr (l, a)"
proof -
  have "train_batches T phase bs w [0, 0, 0] = Inr (w', m')"
    using assms(1) by (simp add: Accumulator_def numeral_3_eq_3)
  from train_batches_count[OF assms(3,2) _ this] obtain x' y' c' where
    m: "m' = [x', y', c']" and c: "1 \<le> c'" by auto
  have "means m' = Inr (fl (x' / c'), fl (y' / c'))"
    using c by (simp add: means_def acc_ratio_def acc_get_def fdiv_def m)
  then show ?thesis by blast
qed

lemma means_zero: "means (Accumulator 3) = Inl ZeroDivisionError"
  by (simp add: means_def acc_ratio_def acc_get_def fdiv_def Accumulator_def numeral_3_eq_3)

lemma train_epoch_empty_loader:
  assumes "n \<noteq> 0" "e mod n \<noteq> 0"
    and "iterate T Train (net_train T True (world r)) = ([], w1)"
  shows "train_epoch T name n e r = (r\<lparr>world := w1\<rparr>, Inl ZeroDivisionError)"
  using assms
  by (simp add: train_epoch_def run_phases_def run_phase_def record_epoch_def means_zero)

text \<open>
  Claim C10. The reads \<open>metric[0] / metric[1]\<close> of \<open>evaluate_loss\<close> and
  \<open>metrics[phase][i] / metrics[phase][2]\<close> of \<open>train\<close> divide without a guard. When the
  loader yields at least one batch, and every loss has at least one element
  (respectively every batch at least one sample), the divisor is at least 1 and the read
  returns a value. With no batch the divisor is zero and the read raises
  \<open>ZeroDivisionError\<close>: \<open>evaluate_loss\<close> on an empty loader, a read on an accumulator
  nothing was added to (the validation accumulator of an epoch whose validation phase
  was skipped is one), and an epoch of \<open>train\<close> whose train loader is empty.
\<close>

theorem mean_reads_need_a_batch:
  "(iterate T key w = (bs, w1) \<and> bs \<noteq> [] \<and>
      (\<forall>b \<in> set bs. \<forall>v. 0 < snd (fst (loss_sum_size T b v))) \<longrightarrow>
      (\<exists>l w'. evaluate_loss T key w = Inr (l, w'))) \<and>
   (iterate T key w = ([], w1) \<longrightarrow> evaluate_loss T key w = Inl ZeroDivisionError) \<and>
   (train_batches T phase bs w (Accumulator 3) = Inr (w2, m) \<and> bs \<noteq> [] \<and>
      (\<forall>b \<in> set bs. 0 < shape0 T b) \<longrightarrow>
      (\<exists>l a. means m = Inr (l, a))) \<and>
   means (Accumulator 3) = Inl ZeroDivisionError \<and>
   (n \<noteq> 0 \<and> e mod n \<noteq> 0 \<and> iterate T Train (net_train T True (world r)) = ([], w1) \<longrightarrow>
      train_epoch T model_file_name n e r = (r\<lparr>world := w1\<rparr>, Inl ZeroDivisionError))"
  using evaluate_loss_nonempty[of T key w bs w1] evaluate_loss_empty[of T key w w1]
    means_after_batches[of T phase bs w w2 m] means_zero
    train_epoch_empty_loader[of n e T r w1 model_file_name]
  by blast

theorem mean_reads_need_a_batch_witness:
  "(\<exists>l w'. evaluate_loss sample_torch Test (5, 0) = Inr (l, w')) \<and>
   train_batches sample_torch Val [3] (5, 0) (Accumulator 3) = Inr ((5, 2), [6, 3, 3]) \<and>
   (\<exists>l a. means [6, 3, 3] = Inr (l, a)) \<and>
   iterate empty_torch Test (5, 0) = ([], (5, 0)) \<and>
   evaluate_loss empty_torch Test (5, 0) = Inl ZeroDivisionError \<and>
   train_epoch empty_torch ''lenet'' 2 1
       \<lparr>world = (5, 0), files = ([] :: (string \<times> nat) list), curve = [], printed = []\<rparr> =
     (\<lparr>world = (5, 0), files = [], curve = [], printed = []\<rparr>\<lparr>world := (5, 0)\<rparr>,
      Inl ZeroDivisionError)"
proof -
  have h1: "iterate sample_torch Test (5, 0) = ([3], (5, 0)) \<and> [3 :: nat] \<noteq> [] \<and>
      (\<forall>b \<in> set [3 :: nat]. \<forall>v. 0 < snd (fst (loss_sum_size sample_torch b v)))"
    by (simp add: sample_torch_sel split_beta)
  have h3: "train_batches sample_torch Val [3] (5, 0) (Accumulator 3) = Inr ((5, 2), [6, 3, 3]) \<and>
      [3 :: nat] \<noteq> [] \<and> (\<forall>b \<in> set [3 :: nat]. 0 < shape0 sample_torch b)"
    by (simp add: sample_evaluate update_def sample_torch_sel float_ops accumulator_ops
        numeral_3_eq_3)
  have h2: "iterate empty_torch Test (5, 0) = ([], (5, 0))"
    by (simp add: empty_torch_sel)
  have h5: "(2 :: int) \<noteq> 0 \<and> (1 :: int) mod 2 \<noteq> 0 \<and>
      iterate empty_torch Train
        (net_train empty_torch True
           (world \<lparr>world = (5, 0), files = [], curve = [], printed = []\<rparr>)) = ([], (5, 0))"
    by (simp add: empty_torch_sel)
  note a = mean_reads_need_a_batch[of sample_torch Test "(5, 0)" "[3]" "(5, 0)" Val "(5, 2)"
      "[6, 3, 3]"]
  note b = mean_reads_need_a_batch[of empty_torch Test "(5, 0)" _ "(5, 0)" _ _ _ 2 1
      "\<lparr>world = (5, 0), files = [], curve = [], printed = []\<rparr>" "''lenet''"]
  have c1: "\<exists>l w'. evaluate_loss sample_torch Test (5, 0) = Inr (l, w')"
    by (rule mp[OF conjunct1[OF a] h1])
  have c3: "\<exists>l a. means [6, 3, 3] = Inr (l, a)"
    by (rule mp[OF conjunct1[OF conjunct2[OF conjunct2[OF a]]] h3])
  have c2: "evaluate_loss empty_torch Test (5, 0) = Inl ZeroDivisionError"
    by (rule mp[OF conjunct1[OF conjunct2[OF b]] h2])
  have c5: "train_epoch empty_torch ''lenet'' 2 1
       \<lparr>world = (5, 0), files = ([] :: (string \<times> nat) list), curve = [], printed = []\<rparr> =
     (\<lparr>world = (5, 0), files = [], curve = [], printed = []\<rparr>\<lparr>world := (5, 0)\<rparr>,
      Inl ZeroDivisionError)"
    by (rule mp[OF conjunct2[OF conjunct2[OF conjunct2[OF conjunct2[OF b]]]] h5])
  show ?thesis
    by (intro conjI) (rule c1 conjunct1[OF h3] c3 h2 c2 c5)+
qed

section \<open>The metric accumulator: verified properties\<close>

lemma add_batches_channels:
  "add_batches [x, y, c] cs =
     [foldl fadd x (map (\<lambda>(l, a, s). l) cs),
      foldl fadd y (map (\<lambda>(l, a, s). a) cs),
      foldl fadd c (map (\<lambda>(l, a, s). float_of_int (int s)) cs)]"
  unfolding add_batches_def
  by (induction cs arbitrary: x y c) (auto simp: acc_add_def)

lemma count_channel_exact_upto:
  assumes "k + sum_list ss \<le> B" "\<And>n. n \<le> B \<Longrightarrow> fl (of_nat n) = of_nat n"
  shows "foldl fadd (of_nat k) (map (\<lambda>s. float_of_int (int s)) ss) = of_nat (k + sum_list ss)"
  using assms(1)
proof (induction ss arbitrary: k)
  case Nil
  then show ?case by simp
next
  case (Cons s ss)
  have s: "s \<le> B" and ks: "k + s \<le> B" using Cons.prems by simp_all
  have "fadd (of_nat k) (float_of_int (int s)) = fl (of_nat k + of_nat s)"
    using assms(2)[OF s] by (simp add: fadd_def float_of_int_def)
  also have "\<dots> = of_nat (k + s)" using assms(2)[OF ks] by simp
  finally have step: "fadd (of_nat k) (float_of_int (int s)) = of_nat (k + s)" .
  have "(k + s) + sum_list ss \<le> B" using Cons.prems by simp
  from Cons.IH[OF this] show ?case by (simp add: step add.assoc)
qed

lemma count_channel_exact:
  assumes "sum_list ss \<le> 2 ^ 53"
  shows "foldl fadd 0 (map (\<lambda>s. float_of_int (int s)) ss) = of_nat (sum_list ss)"
proof -
  have "0 + sum_list ss \<le> 2 ^ 53" using assms by (simp only: add_0)
  from count_channel_exact_upto[OF this fl_of_nat] show ?thesis by (simp only: add_0 of_nat_0)
qed

lemma sizes_permuted:
  fixes cs cs' :: "(double \<times> double \<times> nat) list"
  assumes "mset cs = mset cs'"
  shows "sum_list (map (\<lambda>(l, a, s). s) cs) = sum_list (map (\<lambda>(l, a, s). s) cs')"
proof -
  have "sum_mset (mset (map (\<lambda>(l, a, s). s) cs)) = sum_mset (mset (map (\<lambda>(l, a, s). s) cs'))"
    by (simp add: assms)
  then show ?thesis by (simp only: sum_mset_sum_list)
qed

lemma fadd_zero_float: "fadd 0 (fl x) = fl x"
  by (simp add: fadd_def fl_idem)

lemma count_3: "fadd (fadd (fadd 0 1) 1) 1 = 3"
  by (simp add: fadd_def)

lemma sums_of_tenths:
  fixes a b c :: rat
  defines "a \<equiv> fl (1 / 10)" and "b \<equiv> fl (2 / 10)" and "c \<equiv> fl (3 / 10)"
  shows "fadd (fadd (fadd 0 a) b) c = 5404319552844596 / 2 ^ 53"
    and "fadd (fadd (fadd 0 c) b) a = 5404319552844595 / 2 ^ 53"
proof -
  have av: "a = 7205759403792794 / 2 ^ 56" unfolding a_def
    by (subst fl_cert_lt1[where e = 4]) (simp_all add: round_half_even_def Let_def)
  have bv: "b = 7205759403792794 / 2 ^ 55" unfolding b_def
    by (subst fl_cert_lt1[where e = 3]) (simp_all add: round_half_even_def Let_def)
  have cv: "c = 5404319552844595 / 2 ^ 54" unfolding c_def
    by (subst fl_cert_lt1[where e = 2]) (simp_all add: round_half_even_def Let_def)
  have a0: "fadd 0 a = a" unfolding a_def by (rule fadd_zero_float)
  have c0: "fadd 0 c = c" unfolding c_def by (rule fadd_zero_float)
  define p where "p = fadd a b"
  have pv: "p = 5404319552844596 / 2 ^ 54" unfolding p_def av bv fadd_def
    by (subst fl_cert_lt1[where e = 2]) (simp_all add: round_half_even_def Let_def)
  have "fadd p c = 5404319552844596 / 2 ^ 53" unfolding pv cv fadd_def
    by (subst fl_cert_lt1[where e = 1]) (simp_all add: round_half_even_def Let_def)
  then show "fadd (fadd (fadd 0 a) b) c = 5404319552844596 / 2 ^ 53"
    unfolding a0 p_def .
  define q where "q = fadd c b"
  have qv: "q = 1 / 2" unfolding q_def cv bv fadd_def
    by (subst fl_cert_lt1[where e = 1]) (simp_all add: round_half_even_def Let_def)
  have "fadd q a = 5404319552844595 / 2 ^ 53" unfolding qv av fadd_def
    by (subst fl_cert_lt1[where e = 1]) (simp_all add: round_half_even_def Let_def)
  then show "fadd (fadd (fadd 0 c) b) a = 5404319552844595 / 2 ^ 53"
    unfolding c0 q_def .
qed

lemma mean_fwd: "fdiv (5404319552844596 / 2 ^ 53) 3 = Inr (7205759403792795 / 2 ^ 55)"
  unfolding fdiv_def
  by (subst fl_cert_lt1[where e = 3]) (simp_all add: round_half_even_def Let_def)

lemma mean_bwd: "fdiv (5404319552844595 / 2 ^ 53) 3 = Inr (7205759403792793 / 2 ^ 55)"
  unfolding fdiv_def
  by (subst fl_cert_lt1[where e = 3]) (simp_all add: round_half_even_def Let_def)

lemma add_three:
  "acc_add (acc_add (acc_add (Accumulator 3) [x, 0, 1]) [y, 0, 1]) [z, 0, 1] =
     [fadd (fadd (fadd 0 x) y) z, 0, 3]"
  by (simp add: Accumulator_def numeral_3_eq_3 acc_add_def count_3)
     (simp add: fadd_def fl_zero)

lemma ratio_three: "acc_ratio [x, y, z] 0 2 = fdiv x z"
  by (simp add: acc_ratio_def acc_get_def)

text \<open>
  Claim C5, as stated, fails: the channels are floats and every addition rounds, so the
  sum depends on the order of the additions. Adding the loss contributions 0.1, 0.2 and
  0.3 (batch size 1 each) gives the weighted mean 0.20000000000000004; adding them in
  the order 0.3, 0.2, 0.1 gives 0.19999999999999998.
\<close>

theorem weighted_mean_depends_on_order:
  "acc_ratio (acc_add (acc_add (acc_add (Accumulator 3) [fl (1 / 10), 0, 1]) [fl (2 / 10), 0, 1])
     [fl (3 / 10), 0, 1]) 0 2 = Inr (7205759403792795 / 2 ^ 55) \<and>
   acc_ratio (acc_add (acc_add (acc_add (Accumulator 3) [fl (3 / 10), 0, 1]) [fl (2 / 10), 0, 1])
     [fl (1 / 10), 0, 1]) 0 2 = Inr (7205759403792793 / 2 ^ 55) \<and>
   (7205759403792795 / 2 ^ 55 :: rat) \<noteq> 7205759403792793 / 2 ^ 55"
proof (intro conjI)
  show "acc_ratio (acc_add (acc_add (acc_add (Accumulator 3) [fl (1 / 10), 0, 1]) [fl (2 / 10), 0, 1])
     [fl (3 / 10), 0, 1]) 0 2 = Inr (7205759403792795 / 2 ^ 55)"
    unfolding add_three ratio_three sums_of_tenths(1) by (rule mean_fwd)
  show "acc_ratio (acc_add (acc_add (acc_add (Accumulator 3) [fl (3 / 10), 0, 1]) [fl (2 / 10), 0, 1])
     [fl (1 / 10), 0, 1]) 0 2 = Inr (7205759403792793 / 2 ^ 55)"
    unfolding add_three ratio_three sums_of_tenths(2) by (rule mean_bwd)
  show "(7205759403792795 / 2 ^ 55 :: rat) \<noteq> 7205759403792793 / 2 ^ 55" by simp
qed

text \<open>
  Claim C5, amended. The accumulator starts at zero. After a sequence of additions each
  channel holds the sum of its contributions taken from left to right in float
  arithmetic, every addition rounded, and the weighted-mean read of channel \<open>i\<close> is the
  rounded quotient of channel \<open>i\<close> by channel 2. The channel of the batch sizes equals
  the sum of the sizes exactly, in whatever order the batches were added, as long as
  that sum is at most \<open>2 ^ 53\<close>.
\<close>

theorem accumulator_sums:
  fixes cs cs' :: "(double \<times> double \<times> nat) list"
  shows "Accumulator 3 = [0, 0, 0] \<and>
   add_batches (Accumulator 3) cs =
     [foldl fadd 0 (map (\<lambda>(l, a, s). l) cs),
      foldl fadd 0 (map (\<lambda>(l, a, s). a) cs),
      foldl fadd 0 (map (\<lambda>(l, a, s). float_of_int (int s)) cs)] \<and>
   (length m = 3 \<and> i < 3 \<and> m ! 2 \<noteq> 0 \<longrightarrow> acc_ratio m i 2 = Inr (fl (m ! i / m ! 2))) \<and>
   (sum_list (map (\<lambda>(l, a, s). s) cs) \<le> 2 ^ 53 \<longrightarrow>
      acc_get (add_batches (Accumulator 3) cs) 2 =
        Inr (of_nat (sum_list (map (\<lambda>(l, a, s). s) cs)))) \<and>
   (sum_list (map (\<lambda>(l, a, s). s) cs) \<le> 2 ^ 53 \<and> mset cs = mset cs' \<longrightarrow>
      acc_get (add_batches (Accumulator 3) cs') 2 = acc_get (add_batches (Accumulator 3) cs) 2)"
proof -
  have z: "Accumulator 3 = [0, 0, 0]" by (simp add: Accumulator_def numeral_3_eq_3)
  have ch: "add_batches (Accumulator 3) cs =
     [foldl fadd 0 (map (\<lambda>(l, a, s). l) cs),
      foldl fadd 0 (map (\<lambda>(l, a, s). a) cs),
      foldl fadd 0 (map (\<lambda>(l, a, s). float_of_int (int s)) cs)]" for cs
    unfolding z by (rule add_batches_channels)
  have ratio: "acc_ratio m i 2 = Inr (fl (m ! i / m ! 2))"
    if "length m = 3 \<and> i < 3 \<and> m ! 2 \<noteq> 0"
    using that by (simp add: acc_ratio_def acc_get_def fdiv_def)
  have count: "acc_get (add_batches (Accumulator 3) cs) 2 =
        Inr (of_nat (sum_list (map (\<lambda>(l, a, s). s) cs)))"
    if "sum_list (map (\<lambda>(l, a, s). s) cs) \<le> 2 ^ 53" for cs :: "(double \<times> double \<times> nat) list"
  proof -
    have m: "map (\<lambda>(l, a, s). float_of_int (int s)) cs =
             map (\<lambda>s. float_of_int (int s)) (map (\<lambda>(l, a, s). s) cs)"
      by (simp add: split_beta comp_def)
    from count_channel_exact[OF that]
    have "foldl fadd 0 (map (\<lambda>(l, a, s). float_of_int (int s)) cs) =
          of_nat (sum_list (map (\<lambda>(l, a, s). s) cs))"
      unfolding m .
    then show ?thesis by (simp add: ch acc_get_def)
  qed
  have perm: "acc_get (add_batches (Accumulator 3) cs') 2 = acc_get (add_batches (Accumulator 3) cs) 2"
    if "sum_list (map (\<lambda>(l, a, s). s) cs) \<le> 2 ^ 53 \<and> mset cs = mset cs'"
  proof -
    have e: "sum_list (map (\<lambda>(l, a, s). s) cs') = sum_list (map (\<lambda>(l, a, s). s) cs)"
      using that sizes_permuted[of cs cs'] by (simp only:)
    have le: "sum_list (map (\<lambda>(l, a, s). s) cs) \<le> 2 ^ 53" using that by (rule conjunct1)
    then have le': "sum_list (map (\<lambda>(l, a, s). s) cs') \<le> 2 ^ 53" by (simp only: e)
    show ?thesis unfolding count[OF le] count[OF le'] e ..
  qed
  show ?thesis
    by (intro conjI impI) (rule z ch ratio count perm, assumption?)+
qed

theorem accumulator_sums_witness:
  "add_batches (Accumulator 3) [(4, 2, 2), (2, 1, 1)] = [6, 3, 3] \<and>
   acc_ratio [6, 3, 3] 0 2 = Inr 2 \<and>
   acc_get (add_batches (Accumulator 3) [(4, 2, 2), (2, 1, 1)]) 2 = Inr 3 \<and>
   acc_get (add_batches (Accumulator 3) [(2, 1, 1), (4, 2, 2)]) 2 =
     acc_get (add_batches (Accumulator 3) [(4, 2, 2), (2, 1, 1)]) 2"
proof -
  note t = accumulator_sums[of "[(4, 2, 2), (2, 1, 1)]" "[6, 3, 3]" 0 "[(2, 1, 1), (4, 2, 2)]"]
  have s: "sum_list (map (\<lambda>(l, a, s). s) [(4 :: rat, 2 :: rat, 2 :: nat), (2, 1, 1)]) \<le> 2 ^ 53"
    by simp
  have p: "mset [(4 :: rat, 2 :: rat, 2 :: nat), (2, 1, 1)] = mset [(2, 1, 1), (4, 2, 2)]"
    by (simp add: add_mset_commute)
  have c1: "add_batches (Accumulator 3) [(4, 2, 2), (2, 1, 1)] = [6, 3, 3]"
    using conjunct1[OF conjunct2[OF t]] by (simp add: float_ops)
  have c2: "acc_ratio [6, 3, 3] 0 2 = Inr 2"
    using conjunct1[OF conjunct2[OF conjunct2[OF t]]] by simp
  have c3: "acc_get (add_batches (Accumulator 3) [(4, 2, 2), (2, 1, 1)]) 2 = Inr 3"
    using mp[OF conjunct1[OF conjunct2[OF conjunct2[OF conjunct2[OF t]]]] s] by simp
  have c4: "acc_get (add_batches (Accumulator 3) [(2, 1, 1), (4, 2, 2)]) 2 =
     acc_get (add_batches (Accumulator 3) [(4, 2, 2), (2, 1, 1)]) 2"
    by (rule mp[OF conjunct2[OF conjunct2[OF conjunct2[OF conjunct2[OF t]]]] conjI[OF s p]])
  show ?thesis by (intro conjI) (rule c1 c2 c3 c4)+
qed

end
